theory Spec2Isabelle
  imports Complex_Main
begin

section \<open>Values of the JavaScript runtime\<close>

text \<open>
  Strings are sequences of code units; the model keeps HOL's 8-bit characters.
  A number is a finite value (the sign of zero is not kept), NaN or an infinity.
\<close>

datatype jsnum = Finite rat | NaN | PosInf | NegInf

datatype jsval =
    JUndefined
  | JNull
  | JBool bool
  | JNum jsnum
  | JStr string
  | JArr "jsval list"
  | JObj "(string \<times> jsval) list"

datatype error = SyntaxError | Thrown string

section \<open>Node data (types/graph)\<close>

text \<open>
  Modelled from the spec: the declaration of NodeData is not among the sources.
  A row is \<open>{key: optional string, value: any, type: string}\<close>; a path segment is a
  string key or an integer index; a node is \<open>{id, text, path}\<close>, where the code
  guards against an absent \<open>text\<close> and an absent \<open>path\<close>.
\<close>

record NodeRow =
  row_key :: "string option"
  row_value :: jsval
  row_type :: string

datatype segment = Key string | Index int

record NodeData =
  node_id :: string
  node_text :: "NodeRow list option"
  node_path :: "segment list option"

section \<open>jsonPathToString\<close>

text \<open>Decimal digits of a natural number, most significant first.\<close>

fun digits :: "nat \<Rightarrow> string" where
  "digits n =
     (if n < 10 then [''0123456789'' ! n]
      else digits (n div 10) @ [''0123456789'' ! (n mod 10)])"

declare digits.simps [simp del]

text \<open>
  Number::toString of an integer-valued number: decimal digits with a leading minus
  sign (for magnitudes below \<open>10^21\<close>, which covers every array index).
\<close>

definition int_toString :: "int \<Rightarrow> string" where
  "int_toString i = (if i < 0 then CHR ''-'' # digits (nat (- i)) else digits (nat i))"

text \<open>Array.prototype.join on strings.\<close>

fun join :: "string \<Rightarrow> string list \<Rightarrow> string" where
  "join sep [] = []"
| "join sep [x] = x"
| "join sep (x # y # ys) = x @ sep @ join sep (y # ys)"

text \<open>\<open>seg => (typeof seg === "number" ? seg : `"${seg}"`)\<close>, rendered as join prints it.\<close>

fun path_segment :: "segment \<Rightarrow> string" where
  "path_segment (Index i) = int_toString i"
| "path_segment (Key s) = [CHR 0x22] @ s @ [CHR 0x22]"

definition jsonPathToString :: "segment list option \<Rightarrow> string" where
  "jsonPathToString path =
     (case path of
        None \<Rightarrow> ''$''
      | Some p \<Rightarrow>
          if length p = 0 then ''$''
          else ''$['' @ join '']['' (map path_segment p) @ '']'')"

text \<open>The bracketed form of one segment, as the specification describes it.\<close>

definition bracketed :: "segment \<Rightarrow> string" where
  "bracketed seg =
     (case seg of
        Key s \<Rightarrow> ''['' @ [CHR 0x22] @ s @ [CHR 0x22] @ '']''
      | Index i \<Rightarrow> ''['' @ int_toString i @ '']'')"

section \<open>Builtins of the runtime\<close>

text \<open>
  Functions of the JavaScript runtime and of the jsonc-parser library that the component
  calls but does not define; they are parameters of the model. \<open>JSON_parse\<close> is
  JSON.parse (\<open>Inl\<close>: it throws); \<open>StrNumericLiteral\<close> is the value StringToNumber
  gives a trimmed, non-empty text; \<open>finite_toString\<close> is Number::toString on finite
  numbers; \<open>modify\<close> and \<open>applyEdits\<close> are jsonc-parser's; \<open>setContents_error\<close>
  is what the file store's setContents throws on an update, if it throws.
\<close>

record Edit =
  offset :: nat
  edit_length :: nat
  content :: string

record FormattingOptions =
  insertSpaces :: bool
  tabSize :: nat

record SetContents =
  contents :: string
  hasChanges :: bool
  skipUpdate :: bool

record runtime =
  JSON_parse :: "string \<Rightarrow> error + jsval"
  StrNumericLiteral :: "string \<Rightarrow> jsnum"
  finite_toString :: "rat \<Rightarrow> string"
  modify :: "string \<Rightarrow> segment list \<Rightarrow> jsval \<Rightarrow> FormattingOptions \<Rightarrow> error + Edit list"
  applyEdits :: "string \<Rightarrow> Edit list \<Rightarrow> error + string"
  setContents_error :: "SetContents \<Rightarrow> error option"

subsection \<open>Template-literal stringification (ToString)\<close>

definition Number_toString :: "runtime \<Rightarrow> jsnum \<Rightarrow> string" where
  "Number_toString rt n =
     (case n of
        Finite q \<Rightarrow> finite_toString rt q
      | NaN \<Rightarrow> ''NaN''
      | PosInf \<Rightarrow> ''Infinity''
      | NegInf \<Rightarrow> ''-Infinity'')"

text \<open>
  An array prints its elements joined by commas, null and undefined elements as the
  empty string; a plain object prints as \<open>[object Object]\<close>.
\<close>

fun ToString :: "runtime \<Rightarrow> jsval \<Rightarrow> string"
  and ToString_elems :: "runtime \<Rightarrow> jsval list \<Rightarrow> string list" where
  "ToString rt JUndefined = ''undefined''"
| "ToString rt JNull = ''null''"
| "ToString rt (JBool b) = (if b then ''true'' else ''false'')"
| "ToString rt (JNum n) = Number_toString rt n"
| "ToString rt (JStr s) = s"
| "ToString rt (JArr xs) = join '','' (ToString_elems rt xs)"
| "ToString rt (JObj ps) = ''[object Object]''"
| "ToString_elems rt [] = []"
| "ToString_elems rt (x # xs) =
     (case x of JUndefined \<Rightarrow> [] | JNull \<Rightarrow> [] | _ \<Rightarrow> ToString rt x) # ToString_elems rt xs"

subsection \<open>JSON.stringify\<close>

definition hex_digit :: "nat \<Rightarrow> char" where
  "hex_digit n = ''0123456789abcdef'' ! (n mod 16)"

definition escape_char :: "char \<Rightarrow> string" where
  "escape_char c =
     (if c = CHR 0x22 then [CHR 0x5C, CHR 0x22]
      else if c = CHR 0x5C then [CHR 0x5C, CHR 0x5C]
      else if c = CHR 0x08 then [CHR 0x5C, CHR ''b'']
      else if c = CHR 0x0C then [CHR 0x5C, CHR ''f'']
      else if c = CHR 0x0A then [CHR 0x5C, CHR ''n'']
      else if c = CHR 0x0D then [CHR 0x5C, CHR ''r'']
      else if c = CHR 0x09 then [CHR 0x5C, CHR ''t'']
      else if (of_char c :: nat) < 32
        then [CHR 0x5C, CHR ''u'', CHR ''0'', CHR ''0'',
              hex_digit (of_char c div 16), hex_digit (of_char c)]
      else [c])"

definition QuoteJSONString :: "string \<Rightarrow> string" where
  "QuoteJSONString s = [CHR 0x22] @ concat (map escape_char s) @ [CHR 0x22]"

text \<open>
  SerializeJSONProperty with the current indentation \<open>ind\<close> and the gap: \<open>None\<close> is
  undefined (the property is left out of an object and printed as null in an array).
  A non-finite number prints as null.
\<close>

definition wrap :: "string \<Rightarrow> string \<Rightarrow> string \<Rightarrow> string \<Rightarrow> string list \<Rightarrow> string" where
  "wrap ind gap opening closing partial =
     (if partial = [] then opening @ closing
      else if gap = [] then opening @ join '','' partial @ closing
      else opening @ [CHR 0x0A] @ (ind @ gap)
           @ join ('','' @ [CHR 0x0A] @ (ind @ gap)) partial
           @ [CHR 0x0A] @ ind @ closing)"

fun SerializeJSONProperty :: "runtime \<Rightarrow> string \<Rightarrow> string \<Rightarrow> jsval \<Rightarrow> string option"
  and SerializeJSONArray :: "runtime \<Rightarrow> string \<Rightarrow> string \<Rightarrow> jsval list \<Rightarrow> string list"
  and SerializeJSONObject :: "runtime \<Rightarrow> string \<Rightarrow> string \<Rightarrow> (string \<times> jsval) list \<Rightarrow> string list"
  where
  "SerializeJSONProperty rt ind gap JUndefined = None"
| "SerializeJSONProperty rt ind gap JNull = Some ''null''"
| "SerializeJSONProperty rt ind gap (JBool b) = Some (if b then ''true'' else ''false'')"
| "SerializeJSONProperty rt ind gap (JNum n) =
     Some (case n of Finite q \<Rightarrow> finite_toString rt q | _ \<Rightarrow> ''null'')"
| "SerializeJSONProperty rt ind gap (JStr s) = Some (QuoteJSONString s)"
| "SerializeJSONProperty rt ind gap (JArr xs) =
     Some (wrap ind gap ''['' '']'' (SerializeJSONArray rt (ind @ gap) gap xs))"
| "SerializeJSONProperty rt ind gap (JObj ps) =
     Some (wrap ind gap ''{'' ''}'' (SerializeJSONObject rt (ind @ gap) gap ps))"
| "SerializeJSONArray rt ind gap [] = []"
| "SerializeJSONArray rt ind gap (x # xs) =
     (case SerializeJSONProperty rt ind gap x of None \<Rightarrow> ''null'' | Some s \<Rightarrow> s)
       # SerializeJSONArray rt ind gap xs"
| "SerializeJSONObject rt ind gap [] = []"
| "SerializeJSONObject rt ind gap ((k, v) # ps) =
     (case SerializeJSONProperty rt ind gap v of
        None \<Rightarrow> SerializeJSONObject rt ind gap ps
      | Some s \<Rightarrow>
          (QuoteJSONString k @ '':'' @ (if gap = [] then [] else '' '') @ s)
            # SerializeJSONObject rt ind gap ps)"

text \<open>
  \<open>JSON.stringify(obj, null, space)\<close> on a plain object with the own properties
  \<open>ps\<close> (in property order): the gap is \<open>space\<close> blanks, at most ten.
\<close>

definition JSON_stringify :: "runtime \<Rightarrow> (string \<times> jsval) list \<Rightarrow> nat \<Rightarrow> string" where
  "JSON_stringify rt ps space =
     (let gap = replicate (min 10 space) CHR '' ''
      in wrap [] gap ''{'' ''}'' (SerializeJSONObject rt gap gap ps))"

subsection \<open>Plain objects\<close>

text \<open>
  The own properties of a plain object are kept in property order: array-index keys
  (canonical decimal numerals below \<open>2^32 - 1\<close>) in ascending order, then the other keys
  in order of creation.
\<close>

definition is_digit :: "char \<Rightarrow> bool" where
  "is_digit c = (48 \<le> (of_char c :: nat) \<and> (of_char c :: nat) \<le> 57)"

definition decimal_value :: "string \<Rightarrow> int" where
  "decimal_value s = foldl (\<lambda>acc c. 10 * acc + (of_char c - 48)) 0 s"

definition array_index :: "string \<Rightarrow> int option" where
  "array_index s =
     (case s of
        [] \<Rightarrow> None
      | c # cs \<Rightarrow>
          if list_all is_digit s \<and> (c \<noteq> CHR ''0'' \<or> cs = [])
             \<and> length s \<le> 10 \<and> decimal_value s < 4294967295
          then Some (decimal_value s) else None)"

text \<open>Creating a property: an array index goes before the first larger index or
  other key, any other key goes last.\<close>

fun insert_index :: "int \<Rightarrow> string \<Rightarrow> jsval \<Rightarrow> (string \<times> jsval) list \<Rightarrow> (string \<times> jsval) list" where
  "insert_index n k v [] = [(k, v)]"
| "insert_index n k v ((k', v') # ps) =
     (case array_index k' of
        None \<Rightarrow> (k, v) # (k', v') # ps
      | Some m \<Rightarrow> if n < m then (k, v) # (k', v') # ps else (k', v') # insert_index n k v ps)"

text \<open>Writing an existing property keeps its place.\<close>

fun overwrite :: "string \<Rightarrow> jsval \<Rightarrow> (string \<times> jsval) list \<Rightarrow> (string \<times> jsval) list" where
  "overwrite k v [] = []"
| "overwrite k v ((k', v') # ps) = (if k' = k then (k', v) else (k', v')) # overwrite k v ps"

definition define_property :: "(string \<times> jsval) list \<Rightarrow> string \<Rightarrow> jsval \<Rightarrow> (string \<times> jsval) list" where
  "define_property ps k v =
     (if k \<in> fst ` set ps then overwrite k v ps
      else case array_index k of
             None \<Rightarrow> ps @ [(k, v)]
           | Some n \<Rightarrow> insert_index n k v ps)"

text \<open>
  An object literal \<open>{}\<close> inherits the accessor \<open>__proto__\<close> from Object.prototype:
  assigning to that key creates no own property. A null value removes the prototype,
  and with it the accessor; an object value replaces the prototype (by an object that
  is taken to inherit from Object.prototype itself); any other value is ignored.
\<close>

record jsobject =
  props :: "(string \<times> jsval) list"
  proto_accessor :: bool

definition empty_object :: jsobject where
  "empty_object = \<lparr>props = [], proto_accessor = True\<rparr>"

definition assign :: "jsobject \<Rightarrow> string \<Rightarrow> jsval \<Rightarrow> jsobject" where
  "assign obj k v =
     (if k = ''__proto__'' \<and> proto_accessor obj
      then (case v of JNull \<Rightarrow> obj\<lparr>proto_accessor := False\<rparr> | _ \<Rightarrow> obj)
      else obj\<lparr>props := define_property (props obj) k v\<rparr>)"

section \<open>normalizeNodeData\<close>

text \<open>Truthiness of \<open>row.key\<close>: an absent key and the empty string are falsy.\<close>

definition truthy_key :: "string option \<Rightarrow> bool" where
  "truthy_key k = (case k of None \<Rightarrow> False | Some s \<Rightarrow> s \<noteq> [])"

text \<open>The body of the forEach callback.\<close>

definition add_row :: "jsobject \<Rightarrow> NodeRow \<Rightarrow> jsobject" where
  "add_row obj row =
     (if row_type row \<noteq> ''array'' \<and> row_type row \<noteq> ''object''
      then (case row_key row of
              None \<Rightarrow> obj
            | Some k \<Rightarrow> if k \<noteq> [] then assign obj k (row_value row) else obj)
      else obj)"

text \<open>The object the forEach loop leaves in \<open>obj\<close>.\<close>

definition node_object :: "NodeRow list \<Rightarrow> (string \<times> jsval) list" where
  "node_object rows = props (foldl add_row empty_object rows)"

definition normalizeNodeData :: "runtime \<Rightarrow> NodeRow list option \<Rightarrow> string" where
  "normalizeNodeData rt nodeRows =
     (case nodeRows of
        None \<Rightarrow> ''{}''
      | Some [] \<Rightarrow> ''{}''
      | Some (r # rs) \<Rightarrow>
          if rs = [] \<and> \<not> truthy_key (row_key r) then ToString rt (row_value r)
          else JSON_stringify rt (node_object (r # rs)) 2)"

text \<open>
  The field a row contributes: its key and value, when the key is truthy and the type
  is neither array nor object. The mapping of a node is the one its fields give, a
  later row replacing an earlier one of the same key.
\<close>

definition field_of :: "NodeRow \<Rightarrow> (string \<times> jsval) option" where
  "field_of row =
     (case row_key row of
        None \<Rightarrow> None
      | Some k \<Rightarrow>
          if k \<noteq> [] \<and> row_type row \<noteq> ''array'' \<and> row_type row \<noteq> ''object''
          then Some (k, row_value row) else None)"

definition kept_mapping :: "NodeRow list \<Rightarrow> (string \<rightharpoonup> jsval)" where
  "kept_mapping rows = map_of (rev (List.map_filter field_of rows))"

subsection \<open>normalize as the specification words it\<close>

text \<open>
  The specification's normalize: \<open>{}\<close> for no rows; the value's plain text for exactly
  one row with no key; otherwise the 2-space JSON text of the mapping from key to value
  over the rows that have a key and are not of type array or object.
\<close>

definition spec_field :: "NodeRow \<Rightarrow> (string \<times> jsval) option" where
  "spec_field row =
     (case row_key row of
        None \<Rightarrow> None
      | Some k \<Rightarrow>
          if row_type row \<noteq> ''array'' \<and> row_type row \<noteq> ''object''
          then Some (k, row_value row) else None)"

definition normalize_spec :: "runtime \<Rightarrow> NodeRow list \<Rightarrow> string" where
  "normalize_spec rt rows =
     (case rows of
        [] \<Rightarrow> ''{}''
      | r # rs \<Rightarrow>
          if rs = [] \<and> row_key r = None then ToString rt (row_value r)
          else JSON_stringify rt
                 (foldl (\<lambda>ps (k, v). define_property ps k v) [] (List.map_filter spec_field rows)) 2)"

section \<open>The component: state, collaborators and handlers\<close>

text \<open>
  The state the handlers act on: the text of the json store, the last update the file
  store accepted, the two state variables of the component, and the calls made on the
  collaborators, in order.
\<close>

datatype event =
    GetJson
  | Modify
  | ApplyEdits
  | SetContentsCall SetContents
  | SetJson string
  | ConsoleError error
  | OnClose

record world =
  json :: string
  file_store :: "SetContents option"
  editing :: bool
  editedValue :: string
  events :: "event list"

text \<open>
  A statement runs on the state and either completes with a value or throws; the state
  it leaves is kept in both cases, so that a handler sees the effects made before the
  throw.
\<close>

type_synonym 'a prog = "world \<Rightarrow> (error + 'a) \<times> world"

definition return :: "'a \<Rightarrow> 'a prog" where
  "return x = (\<lambda>w. (Inr x, w))"

definition lift :: "error + 'a \<Rightarrow> 'a prog" where
  "lift r = (\<lambda>w. (r, w))"

definition bind :: "'a prog \<Rightarrow> ('a \<Rightarrow> 'b prog) \<Rightarrow> 'b prog" where
  "bind m f = (\<lambda>w. case m w of (Inl e, w') \<Rightarrow> (Inl e, w') | (Inr x, w') \<Rightarrow> f x w')"

definition try_catch :: "'a prog \<Rightarrow> (error \<Rightarrow> 'a prog) \<Rightarrow> 'a prog" where
  "try_catch body handler =
     (\<lambda>w. case body w of (Inl e, w') \<Rightarrow> handler e w' | (Inr x, w') \<Rightarrow> (Inr x, w'))"

definition emit :: "event \<Rightarrow> unit prog" where
  "emit ev = (\<lambda>w. (Inr (), w\<lparr>events := events w @ [ev]\<rparr>))"

subsection \<open>Collaborators\<close>

text \<open>
  Modelled from the spec: the stores and the close callback are not among the sources.
  getJson returns the current text; setJson replaces it; setContents updates the file
  store or throws; console.error and onClose are recorded as calls.
\<close>

definition getJson :: "string prog" where
  "getJson = bind (emit GetJson) (\<lambda>_ w. (Inr (json w), w))"

definition setJson :: "string \<Rightarrow> unit prog" where
  "setJson newJson = bind (emit (SetJson newJson)) (\<lambda>_ w. (Inr (), w\<lparr>json := newJson\<rparr>))"

definition setContents :: "runtime \<Rightarrow> SetContents \<Rightarrow> unit prog" where
  "setContents rt arg =
     bind (emit (SetContentsCall arg))
       (\<lambda>_ w. case setContents_error rt arg of
                 Some e \<Rightarrow> (Inl e, w)
               | None \<Rightarrow> (Inr (), w\<lparr>file_store := Some arg\<rparr>))"

definition console_error :: "error \<Rightarrow> unit prog" where
  "console_error err = emit (ConsoleError err)"

definition onClose :: "unit prog" where
  "onClose = emit OnClose"

definition setEditing :: "bool \<Rightarrow> unit prog" where
  "setEditing b = (\<lambda>w. (Inr (), w\<lparr>editing := b\<rparr>))"

definition setEditedValue :: "string \<Rightarrow> unit prog" where
  "setEditedValue s = (\<lambda>w. (Inr (), w\<lparr>editedValue := s\<rparr>))"

subsection \<open>Number(text)\<close>

text \<open>
  StringToNumber trims white space and line terminators (here the ones among the code
  units below 256) and reads the empty rest as 0.
\<close>

definition is_ws :: "char \<Rightarrow> bool" where
  "is_ws c = (c \<in> set [CHR 0x09, CHR 0x0A, CHR 0x0B, CHR 0x0C, CHR 0x0D, CHR 0x20, CHR 0xA0])"

definition trim :: "string \<Rightarrow> string" where
  "trim s = rev (dropWhile is_ws (rev (dropWhile is_ws s)))"

definition Number :: "runtime \<Rightarrow> string \<Rightarrow> jsnum" where
  "Number rt s = (let t = trim s in if t = [] then Finite 0 else StrNumericLiteral rt t)"

definition isFinite :: "jsnum \<Rightarrow> bool" where
  "isFinite n = (case n of Finite _ \<Rightarrow> True | _ \<Rightarrow> False)"

subsection \<open>The value of the edited text (saveEdit, lines 63 to 88)\<close>

text \<open>A try block without effects: the handler gets what the body throws.\<close>

definition try_value :: "error + 'a \<Rightarrow> (error \<Rightarrow> error + 'a) \<Rightarrow> error + 'a" where
  "try_value body handler = (case body of Inl e \<Rightarrow> handler e | Inr x \<Rightarrow> Inr x)"

definition firstRow :: "NodeRow list option \<Rightarrow> NodeRow option" where
  "firstRow rows = (case rows of Some (r # rs) \<Rightarrow> Some r | _ \<Rightarrow> None)"

definition parseEdit :: "runtime \<Rightarrow> string \<Rightarrow> NodeRow list option \<Rightarrow> error + jsval" where
  "parseEdit rt text rows =
     try_value (JSON_parse rt text)
       (\<lambda>err. case firstRow rows of
                 Some row \<Rightarrow>
                   if row_type row = ''string'' then Inr (JStr text)
                   else if row_type row = ''number''
                     then (let n = Number rt text
                           in Inr (if isFinite n then JNum n else JStr text))
                   else if row_type row = ''boolean'' then Inr (JBool (text = ''true''))
                   else if row_type row = ''null'' then Inr JNull
                   else Inr (JStr text)
               | None \<Rightarrow> Inr (JStr text))"

subsection \<open>Handlers\<close>

definition initialContent :: "runtime \<Rightarrow> NodeData option \<Rightarrow> string" where
  "initialContent rt nodeData =
     normalizeNodeData rt
       (case nodeData of
          None \<Rightarrow> Some []
        | Some nd \<Rightarrow> (case node_text nd of None \<Rightarrow> Some [] | Some rows \<Rightarrow> Some rows))"

definition startEdit :: "runtime \<Rightarrow> NodeData option \<Rightarrow> unit prog" where
  "startEdit rt nodeData =
     bind (setEditedValue (initialContent rt nodeData)) (\<lambda>_. setEditing True)"

definition cancelEdit :: "unit prog" where
  "cancelEdit = bind (setEditedValue []) (\<lambda>_. setEditing False)"

definition applyNodeEdit :: "runtime \<Rightarrow> string \<Rightarrow> segment list \<Rightarrow> jsval \<Rightarrow> unit prog" where
  "applyNodeEdit rt original path newValue =
     bind (emit Modify) (\<lambda>_.
     bind (lift (modify rt original path newValue \<lparr>insertSpaces = True, tabSize = 2\<rparr>)) (\<lambda>edits.
     bind (emit ApplyEdits) (\<lambda>_.
     bind (lift (applyEdits rt original edits)) (\<lambda>newJson.
     bind (try_catch
             (setContents rt \<lparr>contents = newJson, hasChanges = True, skipUpdate = True\<rparr>)
             (\<lambda>e. return ())) (\<lambda>_.
     setJson newJson)))))"

text \<open>The outcome of computing and applying the patch (lines 91 to 94).\<close>

definition patch_result :: "runtime \<Rightarrow> string \<Rightarrow> segment list \<Rightarrow> jsval \<Rightarrow> error + string" where
  "patch_result rt original path newValue =
     (case modify rt original path newValue \<lparr>insertSpaces = True, tabSize = 2\<rparr> of
        Inl e \<Rightarrow> Inl e
      | Inr edits \<Rightarrow> applyEdits rt original edits)"

definition saveEdit :: "runtime \<Rightarrow> NodeData option \<Rightarrow> unit prog" where
  "saveEdit rt nodeData =
     (case nodeData of
        None \<Rightarrow> cancelEdit
      | Some nd \<Rightarrow>
          (case node_path nd of
             None \<Rightarrow> cancelEdit
           | Some path \<Rightarrow>
               bind getJson (\<lambda>original.
               bind (\<lambda>w. (parseEdit rt (editedValue w) (node_text nd), w)) (\<lambda>newValue.
               bind (try_catch (applyNodeEdit rt original path newValue)
                       (\<lambda>err. console_error err)) (\<lambda>_.
               bind (setEditing False) (\<lambda>_.
               onClose))))))"

text \<open>
  The effect with dependencies \<open>[nodeData?.id, opened]\<close>: it runs when one of them
  differs from the previous render.
\<close>

definition reset_effect :: "string option \<times> bool \<Rightarrow> string option \<times> bool \<Rightarrow> unit prog" where
  "reset_effect previous deps =
     (if deps \<noteq> previous then bind (setEditing False) (\<lambda>_. setEditedValue [])
      else return ())"

text \<open>The close button and the text area's onChange.\<close>

definition closeButton :: "unit prog" where
  "closeButton = bind (\<lambda>w. if editing w then cancelEdit w else (Inr (), w)) (\<lambda>_. onClose)"

definition onChange :: "string \<Rightarrow> unit prog" where
  "onChange v = setEditedValue v"

section \<open>jsonc-parser: modify and applyEdits\<close>

text \<open>
  The two functions of the jsonc-parser library (version 3) that saveEdit calls, after
  the library's sources: the scanner, the fault-tolerant tree parser, findNodeAtLocation,
  the range formatter and the edit computation of modify (setProperty), and applyEdits.
  Offsets count characters of the text. Of a token's value only that of a string is
  kept (property names are compared with it); parse errors are only reported by the
  library, so they are left out, but the tokens skipped after an error are skipped here
  as well.
\<close>

subsection \<open>Scanner\<close>

datatype SyntaxKind =
    OpenBraceToken | CloseBraceToken | OpenBracketToken | CloseBracketToken
  | CommaToken | ColonToken | NullKeyword | TrueKeyword | FalseKeyword
  | StringLiteral | NumericLiteral | LineCommentTrivia | BlockCommentTrivia
  | LineBreakTrivia | Trivia | Unknown | EOF

record Token =
  token :: SyntaxKind
  tokenOffset :: nat
  tokenLength :: nat
  tokenValue :: string
  tokenError :: bool

definition isWhiteSpace :: "char \<Rightarrow> bool" where
  "isWhiteSpace c = (c = CHR 0x20 \<or> c = CHR 0x09)"

definition isLineBreak :: "char \<Rightarrow> bool" where
  "isLineBreak c = (c = CHR 0x0A \<or> c = CHR 0x0D)"

definition isUnknownContentCharacter :: "char \<Rightarrow> bool" where
  "isUnknownContentCharacter c =
     (\<not> isWhiteSpace c \<and> \<not> isLineBreak c
      \<and> c \<notin> set [CHR 0x7D, CHR 0x5D, CHR 0x7B, CHR 0x5B, CHR 0x22, CHR 0x3A, CHR 0x2C, CHR 0x2F])"

definition hex_value :: "char \<Rightarrow> nat option" where
  "hex_value c =
     (let n = (of_char c :: nat)
      in if 48 \<le> n \<and> n \<le> 57 then Some (n - 48)
         else if 65 \<le> n \<and> n \<le> 70 then Some (n - 55)
         else if 97 \<le> n \<and> n \<le> 102 then Some (n - 87)
         else None)"

fun scanHexDigits :: "nat \<Rightarrow> string \<Rightarrow> nat list" where
  "scanHexDigits 0 cs = []"
| "scanHexDigits (Suc n) [] = []"
| "scanHexDigits (Suc n) (c # cs) =
     (case hex_value c of None \<Rightarrow> [] | Some d \<Rightarrow> d # scanHexDigits n cs)"

definition escaped :: "char \<Rightarrow> char option" where
  "escaped c =
     (if c = CHR 0x22 then Some (CHR 0x22)
      else if c = CHR 0x5C then Some (CHR 0x5C)
      else if c = CHR 0x2F then Some (CHR 0x2F)
      else if c = CHR ''b'' then Some (CHR 0x08)
      else if c = CHR ''f'' then Some (CHR 0x0C)
      else if c = CHR ''n'' then Some (CHR 0x0A)
      else if c = CHR ''r'' then Some (CHR 0x0D)
      else if c = CHR ''t'' then Some (CHR 0x09)
      else None)"

function scanString :: "string \<Rightarrow> bool \<Rightarrow> string \<times> bool \<times> nat" where
  "scanString [] err = ([], True, 0)"
| "scanString (c # cs) err =
     (if c = CHR 0x22 then ([], err, 1)
      else if c \<noteq> CHR 0x5C then
        (if (of_char c :: nat) \<le> 31 then
           (if isLineBreak c then ([], True, 0)
            else (case scanString cs True of (v, e, n) \<Rightarrow> (c # v, e, Suc n)))
         else (case scanString cs err of (v, e, n) \<Rightarrow> (c # v, e, Suc n)))
      else
        (case cs of
           [] \<Rightarrow> ([], True, 1)
         | d # ds \<Rightarrow>
             if d = CHR ''u'' then
               (let hs = scanHexDigits 4 ds
                in case scanString (drop (length hs) ds) (err \<or> length hs < 4) of
                     (v, e, n) \<Rightarrow>
                       (if length hs < 4 then v
                        else char_of (foldl (\<lambda>a h. 16 * a + h) 0 hs) # v,
                        e, n + 2 + length hs))
             else
               (case escaped d of
                  Some x \<Rightarrow> (case scanString ds err of (v, e, n) \<Rightarrow> (x # v, e, n + 2))
                | None \<Rightarrow> (case scanString ds True of (v, e, n) \<Rightarrow> (v, e, n + 2)))))"
  by pat_completeness auto
termination
  by (relation "measure (\<lambda>(cs, err). length cs)") auto

definition scanNumber :: "string \<Rightarrow> nat \<times> bool" where
  "scanNumber cs =
     (let n1 = (case cs of
                  [] \<Rightarrow> 0
                | c # rest \<Rightarrow> if c = CHR ''0'' then 1 else 1 + length (takeWhile is_digit rest));
          r1 = drop n1 cs;
          frac = (case r1 of
                    c # r2 \<Rightarrow>
                      if c = CHR ''.'' then
                        (case r2 of
                           d # r3 \<Rightarrow> if is_digit d then Some (1 + length (takeWhile is_digit r2))
                                      else None
                         | [] \<Rightarrow> None)
                      else Some 0
                  | [] \<Rightarrow> Some 0)
      in case frac of
           None \<Rightarrow> (n1 + 1, True)
         | Some n2 \<Rightarrow>
             (case drop (n1 + n2) cs of
                c # r4 \<Rightarrow>
                  if c = CHR ''E'' \<or> c = CHR ''e'' then
                    (let sgn = (case r4 of
                                  s # r5 \<Rightarrow> if s = CHR ''+'' \<or> s = CHR ''-'' then 1 else 0
                                | [] \<Rightarrow> 0);
                         r6 = drop sgn r4
                     in case r6 of
                          d # r7 \<Rightarrow>
                            if is_digit d
                            then (n1 + n2 + 1 + sgn + length (takeWhile is_digit r6), False)
                            else (n1 + n2 + 1 + sgn, True)
                        | [] \<Rightarrow> (n1 + n2 + 1 + sgn, True))
                  else (n1 + n2, False)
              | [] \<Rightarrow> (n1 + n2, False)))"

fun scanBlockComment :: "string \<Rightarrow> nat \<times> bool" where
  "scanBlockComment (c # d # rest) =
     (if c = CHR ''*'' \<and> d = CHR 0x2F then (2, True)
      else if c = CHR 0x0D \<and> d = CHR 0x0A
        then (case scanBlockComment rest of (n, done_) \<Rightarrow> (n + 2, done_))
      else (case scanBlockComment (d # rest) of (n, done_) \<Rightarrow> (n + 1, done_)))"
| "scanBlockComment cs = (0, False)"

definition scan :: "string \<Rightarrow> SyntaxKind \<times> string \<times> bool \<times> nat" where
  "scan cs =
     (case cs of
        [] \<Rightarrow> (EOF, [], False, 0)
      | c # rest \<Rightarrow>
          if isWhiteSpace c then (Trivia, [], False, length (takeWhile isWhiteSpace cs))
          else if isLineBreak c then
            (LineBreakTrivia, [], False,
             (case rest of
                d # r2 \<Rightarrow> if c = CHR 0x0D \<and> d = CHR 0x0A then 2 else 1
              | [] \<Rightarrow> 1))
          else if c = CHR 0x7B then (OpenBraceToken, [], False, 1)
          else if c = CHR 0x7D then (CloseBraceToken, [], False, 1)
          else if c = CHR 0x5B then (OpenBracketToken, [], False, 1)
          else if c = CHR 0x5D then (CloseBracketToken, [], False, 1)
          else if c = CHR 0x3A then (ColonToken, [], False, 1)
          else if c = CHR 0x2C then (CommaToken, [], False, 1)
          else if c = CHR 0x22 then
            (case scanString rest False of (v, e, n) \<Rightarrow> (StringLiteral, v, e, Suc n))
          else if c = CHR 0x2F then
            (case rest of
               d # r2 \<Rightarrow>
                 if d = CHR 0x2F
                   then (LineCommentTrivia, [], False,
                         2 + length (takeWhile (\<lambda>x. \<not> isLineBreak x) r2))
                 else if d = CHR ''*''
                   then (case scanBlockComment r2 of
                           (n, done_) \<Rightarrow>
                             (BlockCommentTrivia, [], \<not> done_,
                              if done_ then 2 + n else 2 + n + 1))
                 else (Unknown, [], False, 1)
             | [] \<Rightarrow> (Unknown, [], False, 1))
          else if c = CHR ''-'' then
            (case rest of
               d # r2 \<Rightarrow>
                 if is_digit d
                 then (case scanNumber rest of (n, e) \<Rightarrow> (NumericLiteral, [], e, Suc n))
                 else (Unknown, [], False, 1)
             | [] \<Rightarrow> (Unknown, [], False, 1))
          else if is_digit c then
            (case scanNumber cs of (n, e) \<Rightarrow> (NumericLiteral, [], e, n))
          else
            (let run = takeWhile isUnknownContentCharacter cs
             in if run = [] then (Unknown, [], False, 1)
                else if run = ''true'' then (TrueKeyword, [], False, length run)
                else if run = ''false'' then (FalseKeyword, [], False, length run)
                else if run = ''null'' then (NullKeyword, [], False, length run)
                else (Unknown, [], False, length run)))"

text \<open>All tokens of a text, the last one EOF at the end of the text.\<close>

function scan_all :: "nat \<Rightarrow> nat \<Rightarrow> string \<Rightarrow> Token list" where
  "scan_all len pos cs =
     (if cs = [] then
        [\<lparr>token = EOF, tokenOffset = len, tokenLength = 0, tokenValue = [], tokenError = False\<rparr>]
      else
        (case scan cs of
           (k, v, e, n) \<Rightarrow>
             \<lparr>token = k, tokenOffset = pos, tokenLength = n, tokenValue = v, tokenError = e\<rparr>
               # scan_all len (pos + n) (drop (max 1 n) cs)))"
  by pat_completeness auto
termination
  by (relation "measure (\<lambda>(len, pos, cs). length cs)") auto

definition createScanner :: "string \<Rightarrow> Token list" where
  "createScanner text = scan_all (length text) 0 text"


subsection \<open>Tree parser (visit, parseTree)\<close>

datatype NodeType = TObject | TArray | TProperty | TString | TNumber | TBoolean | TNull

datatype Node =
  Node (ntype: NodeType) (noffset: nat) (nlength: nat) (nvalue: string) (nchildren: "Node list")

text \<open>
  The tree under construction: the open nodes, innermost first, each with the children
  it has so far; the last one is the root holder of parseTree.
\<close>

record Frame =
  frame_type :: NodeType
  frame_offset :: nat
  frame_children :: "Node list"

definition addChild :: "Node \<Rightarrow> Frame list \<Rightarrow> Frame list" where
  "addChild node st =
     (case st of
        [] \<Rightarrow> []
      | f # rest \<Rightarrow> f\<lparr>frame_children := frame_children f @ [node]\<rparr> # rest)"

text \<open>Setting the length of the current node and going back to its parent.\<close>

definition closeNode :: "nat \<Rightarrow> Frame list \<Rightarrow> Frame list" where
  "closeNode e st =
     (case st of
        f # p # rest \<Rightarrow>
          addChild (Node (frame_type f) (frame_offset f) (e - frame_offset f) []
                      (frame_children f)) (p # rest)
      | _ \<Rightarrow> st)"

definition ensurePropertyComplete :: "nat \<Rightarrow> Frame list \<Rightarrow> Frame list" where
  "ensurePropertyComplete e st =
     (case st of
        f # rest \<Rightarrow> if frame_type f = TProperty then closeNode e st else st
      | [] \<Rightarrow> st)"

definition openNode :: "NodeType \<Rightarrow> nat \<Rightarrow> Node list \<Rightarrow> Frame list \<Rightarrow> Frame list" where
  "openNode ty off cs st = \<lparr>frame_type = ty, frame_offset = off, frame_children = cs\<rparr> # st"

definition onObjectBegin :: "Token \<Rightarrow> Frame list \<Rightarrow> Frame list" where
  "onObjectBegin t st = openNode TObject (tokenOffset t) [] st"

definition onObjectProperty :: "Token \<Rightarrow> Frame list \<Rightarrow> Frame list" where
  "onObjectProperty t st =
     openNode TProperty (tokenOffset t)
       [Node TString (tokenOffset t) (tokenLength t) (tokenValue t) []] st"

definition onObjectEnd :: "Token \<Rightarrow> Frame list \<Rightarrow> Frame list" where
  "onObjectEnd t st =
     (let e = tokenOffset t + tokenLength t
      in ensurePropertyComplete e (closeNode e (ensurePropertyComplete e st)))"

definition onArrayBegin :: "Token \<Rightarrow> Frame list \<Rightarrow> Frame list" where
  "onArrayBegin t st = openNode TArray (tokenOffset t) [] st"

definition onArrayEnd :: "Token \<Rightarrow> Frame list \<Rightarrow> Frame list" where
  "onArrayEnd t st =
     (let e = tokenOffset t + tokenLength t in ensurePropertyComplete e (closeNode e st))"

definition onLiteralValue :: "NodeType \<Rightarrow> Token \<Rightarrow> Frame list \<Rightarrow> Frame list" where
  "onLiteralValue ty t st =
     ensurePropertyComplete (tokenOffset t + tokenLength t)
       (addChild (Node ty (tokenOffset t) (tokenLength t) (tokenValue t) []) st)"

definition onSeparator :: "char \<Rightarrow> Token \<Rightarrow> Frame list \<Rightarrow> Frame list" where
  "onSeparator sep t st =
     (if sep = CHR 0x2C then ensurePropertyComplete (tokenOffset t) st else st)"

text \<open>
  The tokens the parser sees: trivia, comments and unknown tokens are skipped by its
  scanNext. The current token is the head of the list; scanning at EOF stays there.
\<close>

definition significant :: "Token list \<Rightarrow> Token list" where
  "significant ts =
     filter (\<lambda>t. token t \<notin> set [Trivia, LineBreakTrivia, LineCommentTrivia,
                                   BlockCommentTrivia, Unknown]) ts"

definition current :: "Token list \<Rightarrow> Token" where
  "current ts =
     (case ts of
        t # rest \<Rightarrow> t
      | [] \<Rightarrow> \<lparr>token = EOF, tokenOffset = 0, tokenLength = 0, tokenValue = [],
               tokenError = False\<rparr>)"

definition scanNext :: "Token list \<Rightarrow> Token list" where
  "scanNext ts = (case ts of t # t' # rest \<Rightarrow> t' # rest | _ \<Rightarrow> ts)"

text \<open>handleError with its two sets of tokens to skip to; the error itself is only
  reported.\<close>

fun skip :: "SyntaxKind list \<Rightarrow> SyntaxKind list \<Rightarrow> Token list \<Rightarrow> Token list" where
  "skip after until [] = []"
| "skip after until (t # ts) =
     (if token t = EOF then t # ts
      else if token t \<in> set after then scanNext (t # ts)
      else if token t \<in> set until then t # ts
      else skip after until ts)"

definition handleError :: "SyntaxKind list \<Rightarrow> SyntaxKind list \<Rightarrow> Token list \<Rightarrow> Token list" where
  "handleError after until ts = (if after = [] \<and> until = [] then ts else skip after until ts)"

text \<open>
  parseValue, the loops of parseArray and parseObject, and parseProperty. The first
  argument bounds the depth of the calls; every call of a loop consumes a token, so
  twice the number of tokens is enough.
\<close>

fun parseValue :: "nat \<Rightarrow> Token list \<Rightarrow> Frame list \<Rightarrow> bool \<times> Token list \<times> Frame list"
  and parseArray :: "nat \<Rightarrow> Token list \<Rightarrow> Frame list \<Rightarrow> Token list \<times> Frame list"
  and parseObject :: "nat \<Rightarrow> Token list \<Rightarrow> Frame list \<Rightarrow> Token list \<times> Frame list"
  and parseProperty :: "nat \<Rightarrow> Token list \<Rightarrow> Frame list \<Rightarrow> bool \<times> Token list \<times> Frame list"
  where
  "parseValue 0 ts st = (False, ts, st)"
| "parseValue (Suc n) ts st =
     (let t = current ts in
      if token t = OpenBracketToken then
        (case parseArray n (scanNext ts) (onArrayBegin t st) of
           (ts1, st1) \<Rightarrow>
             (True,
              if token (current ts1) \<noteq> CloseBracketToken
              then handleError [CloseBracketToken] [] ts1 else scanNext ts1,
              onArrayEnd (current ts1) st1))
      else if token t = OpenBraceToken then
        (case parseObject n (scanNext ts) (onObjectBegin t st) of
           (ts1, st1) \<Rightarrow>
             (True,
              if token (current ts1) \<noteq> CloseBraceToken
              then handleError [CloseBraceToken] [] ts1 else scanNext ts1,
              onObjectEnd (current ts1) st1))
      else if token t = StringLiteral then (True, scanNext ts, onLiteralValue TString t st)
      else if token t = NumericLiteral then (True, scanNext ts, onLiteralValue TNumber t st)
      else if token t = NullKeyword then (True, scanNext ts, onLiteralValue TNull t st)
      else if token t = TrueKeyword then (True, scanNext ts, onLiteralValue TBoolean t st)
      else if token t = FalseKeyword then (True, scanNext ts, onLiteralValue TBoolean t st)
      else (False, ts, st))"
| "parseArray 0 ts st = (ts, st)"
| "parseArray (Suc n) ts st =
     (let t = current ts in
      if token t = CloseBracketToken \<or> token t = EOF then (ts, st)
      else
        (let ts1 = (if token t = CommaToken then scanNext ts else ts);
             st1 = (if token t = CommaToken then onSeparator (CHR 0x2C) t st else st)
         in case parseValue n ts1 st1 of
              (ok, ts2, st2) \<Rightarrow>
                parseArray n
                  (if ok then ts2 else handleError [] [CloseBracketToken, CommaToken] ts2) st2))"
| "parseObject 0 ts st = (ts, st)"
| "parseObject (Suc n) ts st =
     (let t = current ts in
      if token t = CloseBraceToken \<or> token t = EOF then (ts, st)
      else
        (let ts1 = (if token t = CommaToken then scanNext ts else ts);
             st1 = (if token t = CommaToken then onSeparator (CHR 0x2C) t st else st)
         in case parseProperty n ts1 st1 of
              (ok, ts2, st2) \<Rightarrow>
                parseObject n
                  (if ok then ts2 else handleError [] [CloseBraceToken, CommaToken] ts2) st2))"
| "parseProperty 0 ts st = (False, ts, st)"
| "parseProperty (Suc n) ts st =
     (let t = current ts in
      if token t \<noteq> StringLiteral
      then (False, handleError [] [CloseBraceToken, CommaToken] ts, st)
      else
        (let ts1 = scanNext ts; st1 = onObjectProperty t st in
         if token (current ts1) = ColonToken then
           (case parseValue n (scanNext ts1) (onSeparator (CHR 0x3A) (current ts1) st1) of
              (ok, ts2, st2) \<Rightarrow>
                (True,
                 if ok then ts2 else handleError [] [CloseBraceToken, CommaToken] ts2, st2))
         else (True, handleError [] [CloseBraceToken, CommaToken] ts1, st1)))"

definition parseTree :: "string \<Rightarrow> Node option" where
  "parseTree text =
     (let ts = significant (createScanner text);
          holder = [\<lparr>frame_type = TArray, frame_offset = 0, frame_children = []\<rparr>];
          st = (if token (current ts) = EOF then holder
                else snd (snd (parseValue (2 * length ts + 2) ts holder)))
      in case frame_children (last st) of [] \<Rightarrow> None | n0 # rest \<Rightarrow> Some n0)"


subsection \<open>findNodeAtLocation\<close>

fun findProperty :: "string \<Rightarrow> Node list \<Rightarrow> Node option" where
  "findProperty k [] = None"
| "findProperty k (p # ps) =
     (case nchildren p of
        [key, v] \<Rightarrow> if nvalue key = k then Some v else findProperty k ps
      | _ \<Rightarrow> findProperty k ps)"

fun findNodeAtLocation :: "Node option \<Rightarrow> segment list \<Rightarrow> Node option" where
  "findNodeAtLocation None path = None"
| "findNodeAtLocation (Some node) [] = Some node"
| "findNodeAtLocation (Some node) (Key k # path) =
     (if ntype node \<noteq> TObject then None
      else findNodeAtLocation (findProperty k (nchildren node)) path)"
| "findNodeAtLocation (Some node) (Index i # path) =
     (if ntype node \<noteq> TArray \<or> i < 0 \<or> i \<ge> int (length (nchildren node)) then None
      else findNodeAtLocation (Some (nchildren node ! nat i)) path)"

subsection \<open>format\<close>

definition applyEdit :: "string \<Rightarrow> Edit \<Rightarrow> string" where
  "applyEdit text edit =
     take (offset edit) text @ content edit @ drop (offset edit + edit_length edit) text"

definition substring :: "string \<Rightarrow> nat \<Rightarrow> nat \<Rightarrow> string" where
  "substring text a b = take (b - a) (drop a text)"

definition isEOL :: "string \<Rightarrow> nat \<Rightarrow> bool" where
  "isEOL text i = (i \<ge> length text \<or> text ! i = CHR 0x0D \<or> text ! i = CHR 0x0A)"

text \<open>The start of the line of a position, and the end of the line.\<close>

fun lineStart :: "string \<Rightarrow> nat \<Rightarrow> nat" where
  "lineStart text 0 = 0"
| "lineStart text (Suc i) = (if isEOL text i then Suc i else lineStart text i)"

definition lineEnd :: "string \<Rightarrow> nat \<Rightarrow> nat" where
  "lineEnd text i =
     (if i < length text
      then i + length (takeWhile (\<lambda>c. c \<noteq> CHR 0x0D \<and> c \<noteq> CHR 0x0A) (drop i text))
      else i)"

fun getEOL :: "string \<Rightarrow> string" where
  "getEOL [] = [CHR 0x0A]"
| "getEOL (c # cs) =
     (if c = CHR 0x0D
      then (case cs of
              d # ds \<Rightarrow> if d = CHR 0x0A then [CHR 0x0D, CHR 0x0A] else [CHR 0x0D]
            | [] \<Rightarrow> [CHR 0x0D])
      else if c = CHR 0x0A then [CHR 0x0A]
      else getEOL cs)"

definition tabSizeOr4 :: "FormattingOptions \<Rightarrow> nat" where
  "tabSizeOr4 options = (if tabSize options = 0 then 4 else tabSize options)"

fun indentWidth :: "nat \<Rightarrow> string \<Rightarrow> nat" where
  "indentWidth ts [] = 0"
| "indentWidth ts (c # cs) =
     (if c = CHR 0x20 then 1 + indentWidth ts cs
      else if c = CHR 0x09 then ts + indentWidth ts cs
      else 0)"

definition computeIndentLevel :: "string \<Rightarrow> FormattingOptions \<Rightarrow> nat" where
  "computeIndentLevel text options = indentWidth (tabSizeOr4 options) text div tabSizeOr4 options"

text \<open>
  What format's scanNext returns, token by token: the tokens that are not white space
  or line breaks, each with the flag that a line break was skipped before it.
\<close>

fun scanNexts :: "bool \<Rightarrow> Token list \<Rightarrow> (Token \<times> bool) list" where
  "scanNexts br [] = []"
| "scanNexts br (t # ts) =
     (if token t = Trivia then scanNexts br ts
      else if token t = LineBreakTrivia then scanNexts True ts
      else (t, br) # scanNexts False ts)"

definition hasError :: "Token \<Rightarrow> bool" where
  "hasError t = (token t = Unknown \<or> tokenError t)"

record FormatContext =
  documentText :: string
  rangeStart :: nat
  rangeEnd :: nat
  formatTextStart :: nat
  initialIndentLevel :: nat
  eol :: string
  indentValue :: string

definition addEdit :: "FormatContext \<Rightarrow> bool \<Rightarrow> string \<Rightarrow> nat \<Rightarrow> nat \<Rightarrow> Edit list" where
  "addEdit cx err text startOffset endOffset =
     (if \<not> err \<and> startOffset < rangeEnd cx \<and> endOffset > rangeStart cx
         \<and> substring (documentText cx) startOffset endOffset \<noteq> text
      then [\<lparr>offset = startOffset, edit_length = endOffset - startOffset, content = text\<rparr>]
      else [])"

definition newLinesAndIndent :: "FormatContext \<Rightarrow> int \<Rightarrow> string" where
  "newLinesAndIndent cx indentLevel =
     eol cx @ concat (replicate (nat (int (initialIndentLevel cx) + indentLevel)) (indentValue cx))"

definition tokenEnd :: "FormatContext \<Rightarrow> Token \<Rightarrow> nat" where
  "tokenEnd cx t = tokenOffset t + tokenLength t + formatTextStart cx"

definition isComment :: "SyntaxKind \<Rightarrow> bool" where
  "isComment k = (k = LineCommentTrivia \<or> k = BlockCommentTrivia)"

text \<open>
  One round of format's loop, with keepLines false and no final newline, as modify
  calls it: the replacement of the text between the first token (or the comments after
  it) and the second token, the new indentation level and the error flag.
\<close>

definition between :: "FormatContext \<Rightarrow> SyntaxKind \<Rightarrow> SyntaxKind \<Rightarrow> bool \<Rightarrow> bool \<Rightarrow> string
    \<Rightarrow> int \<Rightarrow> bool \<Rightarrow> string \<times> int \<times> bool" where
  "between cx firstToken secondToken br needsLineBreak replaceContent indentLevel err =
     (let (c1, lv, er) =
        (if secondToken = CloseBraceToken then
           (if firstToken \<noteq> OpenBraceToken
            then (newLinesAndIndent cx (indentLevel - 1), indentLevel - 1, err)
            else (replaceContent, indentLevel, err))
         else if secondToken = CloseBracketToken then
           (if firstToken \<noteq> OpenBracketToken
            then (newLinesAndIndent cx (indentLevel - 1), indentLevel - 1, err)
            else (replaceContent, indentLevel, err))
         else
           (let (c0, lv0, er0) =
              (if firstToken = OpenBracketToken \<or> firstToken = OpenBraceToken
                 then (newLinesAndIndent cx (indentLevel + 1), indentLevel + 1, err)
               else if firstToken = CommaToken \<or> firstToken = LineCommentTrivia
                 then (newLinesAndIndent cx indentLevel, indentLevel, err)
               else if firstToken = BlockCommentTrivia
                 then (if br then newLinesAndIndent cx indentLevel
                       else if \<not> needsLineBreak then '' '' else replaceContent,
                       indentLevel, err)
               else if firstToken = ColonToken
                 then (if \<not> needsLineBreak then '' '' else replaceContent, indentLevel, err)
               else if firstToken = StringLiteral
                 then (if secondToken = ColonToken \<and> \<not> needsLineBreak then []
                       else replaceContent, indentLevel, err)
               else if firstToken \<in> set [NullKeyword, TrueKeyword, FalseKeyword, NumericLiteral,
                                            CloseBraceToken, CloseBracketToken]
                 then (if isComment secondToken \<and> \<not> needsLineBreak
                       then ('' '', indentLevel, err)
                       else (replaceContent, indentLevel,
                             err \<or> (secondToken \<noteq> CommaToken \<and> secondToken \<noteq> EOF)))
               else if firstToken = Unknown then (replaceContent, indentLevel, True)
               else (replaceContent, indentLevel, err))
            in (if br \<and> isComment secondToken then newLinesAndIndent cx lv0 else c0, lv0, er0)))
      in (if secondToken = EOF then [] else c1, lv, er))"

fun formatLoop :: "FormatContext \<Rightarrow> Token \<Rightarrow> int \<Rightarrow> (Token \<times> bool) list \<Rightarrow> Edit list"
  and formatComments :: "FormatContext \<Rightarrow> Token \<Rightarrow> int \<Rightarrow> nat \<Rightarrow> string \<Rightarrow> bool
      \<Rightarrow> (Token \<times> bool) list \<Rightarrow> Edit list" where
  "formatLoop cx firstToken indentLevel ts =
     formatComments cx firstToken indentLevel (tokenEnd cx firstToken) [] False ts"
| "formatComments cx firstToken indentLevel firstTokenEnd replaceContent needsLineBreak [] = []"
| "formatComments cx firstToken indentLevel firstTokenEnd replaceContent needsLineBreak
       ((secondToken, br) # ts) =
     (if \<not> br \<and> isComment (token secondToken) then
        addEdit cx (hasError secondToken) '' '' firstTokenEnd
            (tokenOffset secondToken + formatTextStart cx)
          @ formatComments cx firstToken indentLevel (tokenEnd cx secondToken)
              (if token secondToken = LineCommentTrivia
               then newLinesAndIndent cx indentLevel else [])
              (token secondToken = LineCommentTrivia) ts
      else
        (case between cx (token firstToken) (token secondToken) br needsLineBreak
                replaceContent indentLevel (hasError secondToken) of
           (c, lv, er) \<Rightarrow>
             addEdit cx er c firstTokenEnd (tokenOffset secondToken + formatTextStart cx)
               @ (if token secondToken = EOF then [] else formatLoop cx secondToken lv ts)))"

definition format_range :: "string \<Rightarrow> nat \<Rightarrow> nat \<Rightarrow> FormattingOptions \<Rightarrow> Edit list" where
  "format_range text rangeOffset rangeLength options =
     (let start = lineStart text rangeOffset;
          formatText = substring text start (lineEnd text (rangeOffset + rangeLength));
          cx = \<lparr>documentText = text, rangeStart = rangeOffset,
                rangeEnd = rangeOffset + rangeLength, formatTextStart = start,
                initialIndentLevel = computeIndentLevel formatText options,
                eol = getEOL text,
                indentValue = (if insertSpaces options
                               then replicate (tabSizeOr4 options) (CHR 0x20)
                               else [CHR 0x09])\<rparr>
      in case scanNexts False (createScanner formatText) of
           [] \<Rightarrow> []
         | (firstToken, br) # ts \<Rightarrow>
             if token firstToken = EOF then []
             else addEdit cx (hasError firstToken)
                    (concat (replicate (initialIndentLevel cx) (indentValue cx)))
                    start (tokenOffset firstToken + start)
                  @ formatLoop cx firstToken 0 ts)"

subsection \<open>modify\<close>

text \<open>Merging the edits of the formatter into the one edit that modify returns.\<close>

fun mergeEdits :: "Edit list \<Rightarrow> string \<times> int \<times> int \<Rightarrow> string \<times> int \<times> int" where
  "mergeEdits [] acc = acc"
| "mergeEdits (e # es) (text, begin, end) =
     mergeEdits es
       (applyEdit text e,
        min begin (int (offset e)),
        max end (int (offset e + edit_length e)) + int (length (content e)) - int (edit_length e))"

definition withFormatting :: "string \<Rightarrow> Edit \<Rightarrow> FormattingOptions \<Rightarrow> Edit list" where
  "withFormatting text edit options =
     (let newText = applyEdit text edit;
          widen = (edit_length edit = 0 \<or> length (content edit) = 0);
          begin = (if widen then lineStart newText (offset edit) else offset edit);
          end = (if widen then lineEnd newText (offset edit + length (content edit))
                 else offset edit + length (content edit));
          edits = format_range newText begin (end - begin) options
      in case mergeEdits (rev edits) (newText, int begin, int end) of
           (t, b, e) \<Rightarrow>
             [\<lparr>offset = nat b,
               edit_length = nat (int (length text) - (int (length t) - e) - b),
               content = substring t (nat b) (nat e)\<rparr>])"

text \<open>JSON.stringify of a value, without indentation.\<close>

definition stringify :: "runtime \<Rightarrow> jsval \<Rightarrow> string" where
  "stringify rt v = (case SerializeJSONProperty rt [] [] v of Some s \<Rightarrow> s | None \<Rightarrow> [])"

text \<open>
  The loop of setProperty over the path, last segment first: as long as the parent is
  missing the value is wrapped into an object or array for the segment.
\<close>

fun findParent :: "Node option \<Rightarrow> segment list \<Rightarrow> jsval
    \<Rightarrow> segment option \<times> Node option \<times> jsval" where
  "findParent tree [] v = (None, None, v)"
| "findParent tree (lastSegment # revPath) v =
     (case findNodeAtLocation tree (rev revPath) of
        None \<Rightarrow>
          if v \<noteq> JUndefined
          then (case findParent tree revPath
                       (case lastSegment of Key k \<Rightarrow> JObj [(k, v)] | Index i \<Rightarrow> JArr [v]) of
                  (None, p, w) \<Rightarrow> (Some lastSegment, p, w)
                | r \<Rightarrow> r)
          else (Some lastSegment, None, v)
      | Some parent \<Rightarrow> (Some lastSegment, Some parent, v))"

definition typeName :: "NodeType \<Rightarrow> string" where
  "typeName ty =
     (case ty of TObject \<Rightarrow> ''object'' | TArray \<Rightarrow> ''array'' | TProperty \<Rightarrow> ''property''
      | TString \<Rightarrow> ''string'' | TNumber \<Rightarrow> ''number'' | TBoolean \<Rightarrow> ''boolean''
      | TNull \<Rightarrow> ''null'')"

definition nodeEnd :: "Node \<Rightarrow> nat" where
  "nodeEnd n = noffset n + nlength n"

fun indexOfProperty :: "Node \<Rightarrow> Node list \<Rightarrow> nat option" where
  "indexOfProperty v [] = None"
| "indexOfProperty v (p # ps) =
     (case nchildren p of
        [key, w] \<Rightarrow> if w = v \<and> noffset w = noffset v then Some 0
                     else map_option Suc (indexOfProperty v ps)
      | _ \<Rightarrow> map_option Suc (indexOfProperty v ps))"

definition setProperty :: "runtime \<Rightarrow> string \<Rightarrow> segment list \<Rightarrow> jsval \<Rightarrow> FormattingOptions
    \<Rightarrow> error + Edit list" where
  "setProperty rt text path v options =
     (let tree = parseTree text in
      case findParent tree (rev path) v of
        (lastSegment, None, value) \<Rightarrow>
          if value = JUndefined then Inl (Thrown ''Can not delete in empty document'')
          else Inr (withFormatting text
                 \<lparr>offset = (case tree of Some r \<Rightarrow> noffset r | None \<Rightarrow> 0),
                  edit_length = (case tree of Some r \<Rightarrow> nlength r | None \<Rightarrow> 0),
                  content = stringify rt value\<rparr> options)
      | (lastSegment, Some parent, value) \<Rightarrow>
          (case (ntype parent, lastSegment) of
             (TObject, Some (Key k)) \<Rightarrow>
               (case findProperty k (nchildren parent) of
                  Some existing \<Rightarrow>
                    if value = JUndefined then
                      (case indexOfProperty existing (nchildren parent) of
                         None \<Rightarrow> Inl (Thrown ''Malformed AST'')
                       | Some propertyIndex \<Rightarrow>
                           (let property = nchildren parent ! propertyIndex;
                                removeBegin =
                                  (if propertyIndex > 0
                                   then nodeEnd (nchildren parent ! (propertyIndex - 1))
                                   else noffset parent + 1);
                                removeEnd =
                                  (if propertyIndex = 0 \<and> length (nchildren parent) > 1
                                   then noffset (nchildren parent ! 1)
                                   else nodeEnd property)
                            in Inr (withFormatting text
                                 \<lparr>offset = removeBegin, edit_length = removeEnd - removeBegin,
                                  content = []\<rparr> options)))
                    else Inr (withFormatting text
                           \<lparr>offset = noffset existing, edit_length = nlength existing,
                            content = stringify rt value\<rparr> options)
                | None \<Rightarrow>
                    if value = JUndefined then Inr []
                    else
                      (let newProperty = QuoteJSONString k @ '': '' @ stringify rt value
                       in Inr (withFormatting text
                            (case nchildren parent of
                               [] \<Rightarrow> \<lparr>offset = noffset parent + 1, edit_length = 0,
                                       content = newProperty\<rparr>
                             | _ \<Rightarrow> \<lparr>offset = nodeEnd (last (nchildren parent)),
                                      edit_length = 0,
                                      content = '','' @ newProperty\<rparr>) options)))
           | (TArray, Some (Index i)) \<Rightarrow>
               (let cs = nchildren parent; n = int (length cs) in
                if i = - 1 then
                  Inr (withFormatting text
                    (case cs of
                       [] \<Rightarrow> \<lparr>offset = noffset parent + 1, edit_length = 0,
                               content = stringify rt value\<rparr>
                     | _ \<Rightarrow> \<lparr>offset = nodeEnd (last cs), edit_length = 0,
                              content = '','' @ stringify rt value\<rparr>) options)
                else if value = JUndefined then
                  (if n = 1 then
                     Inr (withFormatting text
                       \<lparr>offset = noffset parent + 1, edit_length = nlength parent - 2,
                        content = []\<rparr> options)
                   else if n - 1 = i then
                     (if i < 1 then Inl (Thrown ''TypeError'')
                      else (let previousEnd = nodeEnd (cs ! nat (i - 1))
                            in Inr (withFormatting text
                                 \<lparr>offset = previousEnd,
                                  edit_length = nodeEnd parent - 2 - previousEnd,
                                  content = []\<rparr> options)))
                   else if i < 0 \<or> i + 1 \<ge> n then Inl (Thrown ''TypeError'')
                   else Inr (withFormatting text
                          \<lparr>offset = noffset (cs ! nat i),
                           edit_length = noffset (cs ! nat (i + 1)) - noffset (cs ! nat i),
                           content = []\<rparr> options))
                else if n > i then
                  (if i < 0 then Inl (Thrown ''TypeError'')
                   else Inr (withFormatting text
                          \<lparr>offset = noffset (cs ! nat i), edit_length = nlength (cs ! nat i),
                           content = stringify rt value\<rparr> options))
                else if n = 0 \<or> i = 0 then
                  Inr (withFormatting text
                    \<lparr>offset = noffset parent + 1, edit_length = 0,
                     content = (if n = 0 then stringify rt value
                                else stringify rt value @ '','')\<rparr> options)
                else
                  Inr (withFormatting text
                    \<lparr>offset = nodeEnd (cs ! nat ((if i > n then n else i) - 1)),
                     edit_length = 0, content = '','' @ stringify rt value\<rparr> options))
           | (ty, seg) \<Rightarrow>
               Inl (Thrown (''Can not add ''
                      @ (case seg of Some (Index i) \<Rightarrow> ''property'' | _ \<Rightarrow> ''index'')
                      @ '' to parent of type '' @ typeName ty))))"

subsection \<open>applyEdits\<close>

fun insertEdit :: "Edit \<Rightarrow> Edit list \<Rightarrow> Edit list" where
  "insertEdit e [] = [e]"
| "insertEdit e (x # xs) =
     (if offset e < offset x \<or> (offset e = offset x \<and> edit_length e \<le> edit_length x)
      then e # x # xs else x # insertEdit e xs)"

definition sortEdits :: "Edit list \<Rightarrow> Edit list" where
  "sortEdits edits = foldr insertEdit edits []"

fun applyBackwards :: "Edit list \<Rightarrow> string \<Rightarrow> nat \<Rightarrow> error + string" where
  "applyBackwards [] text lastModifiedOffset = Inr text"
| "applyBackwards (e # es) text lastModifiedOffset =
     (if offset e + edit_length e \<le> lastModifiedOffset
      then applyBackwards es (applyEdit text e) (offset e)
      else Inl (Thrown ''Overlapping edit''))"

definition jsonc_applyEdits :: "string \<Rightarrow> Edit list \<Rightarrow> error + string" where
  "jsonc_applyEdits text edits = applyBackwards (rev (sortEdits edits)) text (length text)"


section \<open>A worked example\<close>

text \<open>
  The scenario of the specification: the document \<open>{"a":{"b":1}}\<close>, the node at path
  a, b, and the draft \<open>2\<close>. The example runtime patches with jsonc-parser's modify and
  applyEdits as given above. Its JSON.parse and its StringToNumber are cut down to the
  scalars the examples use: JSON.parse reads the keywords true, false and null and
  integer numerals, surrounded by JSON white space, StringToNumber reads integer
  numerals with an optional sign; any other text is rejected (SyntaxError, NaN).
  Numbers are printed as integers.
\<close>

definition example_document :: string where
  \<open>example_document = ''{"a":{"b":1}}''\<close>

definition integer_numeral :: "string \<Rightarrow> bool" where
  "integer_numeral s = (s \<noteq> [] \<and> list_all is_digit s)"

definition json_integer :: "string \<Rightarrow> bool" where
  "json_integer s =
     (integer_numeral s \<and> (case s of c # r \<Rightarrow> c \<noteq> CHR ''0'' \<or> r = [] | [] \<Rightarrow> False))"

definition json_ws :: "char \<Rightarrow> bool" where
  "json_ws c = (c \<in> set [CHR 0x20, CHR 0x09, CHR 0x0A, CHR 0x0D])"

definition example_JSON_parse :: "string \<Rightarrow> error + jsval" where
  "example_JSON_parse text =
     (let t = rev (dropWhile json_ws (rev (dropWhile json_ws text))) in
      if t = ''true'' then Inr (JBool True)
      else if t = ''false'' then Inr (JBool False)
      else if t = ''null'' then Inr JNull
      else if json_integer t then Inr (JNum (Finite (of_int (decimal_value t))))
      else (case t of
              c # r \<Rightarrow>
                if c = CHR ''-'' \<and> json_integer r
                then Inr (JNum (Finite (- of_int (decimal_value r))))
                else Inl SyntaxError
            | [] \<Rightarrow> Inl SyntaxError))"

definition example_StrNumericLiteral :: "string \<Rightarrow> jsnum" where
  "example_StrNumericLiteral t =
     (if integer_numeral t then Finite (of_int (decimal_value t))
      else (case t of
              c # r \<Rightarrow>
                if c = CHR ''+'' \<and> integer_numeral r then Finite (of_int (decimal_value r))
                else if c = CHR ''-'' \<and> integer_numeral r
                  then Finite (- of_int (decimal_value r))
                else NaN
            | [] \<Rightarrow> NaN))"

text \<open>The language part alone; its two library fields are not used.\<close>

definition example_language :: runtime where
  "example_language =
     \<lparr>JSON_parse = example_JSON_parse,
      StrNumericLiteral = example_StrNumericLiteral,
      finite_toString = (\<lambda>q. int_toString \<lfloor>q\<rfloor>),
      modify = (\<lambda>text path v options. Inr []),
      applyEdits = (\<lambda>text edits. Inr text),
      setContents_error = (\<lambda>arg. None)\<rparr>"

definition example_runtime :: runtime where
  "example_runtime =
     example_language
       \<lparr>modify := setProperty example_language, applyEdits := jsonc_applyEdits\<rparr>"

definition example_node :: NodeData where
  "example_node =
     \<lparr>node_id = ''1'',
      node_text = Some [\<lparr>row_key = None, row_value = JNum (Finite 1), row_type = ''number''\<rparr>],
      node_path = Some [Key ''a'', Key ''b'']\<rparr>"

definition example_world :: world where
  "example_world =
     \<lparr>json = example_document, file_store = None, editing = True, editedValue = ''2'',
      events = []\<rparr>"

section \<open>Properties of jsonPathToString\<close>

lemma bracketed_path_segment: "bracketed seg = ''['' @ path_segment seg @ '']''"
  by (cases seg) (simp_all add: bracketed_def)

lemma join_bracketed:
  "p \<noteq> [] \<Longrightarrow>
     ''['' @ join '']['' (map path_segment p) @ '']'' = concat (map bracketed p)"
  by (induction p rule: induct_list012) (simp_all add: bracketed_path_segment)

lemma digits_2: "digits 2 = ''2''"
  by (simp add: digits.simps)

text \<open>
  C7: the empty or absent path is printed as \<open>$\<close>; any other path as \<open>$\<close> followed by
  its segments in order, each in square brackets, string segments in double quotes and
  integer segments bare, with nothing in between; the path a, 2, b gives
  \<open>$["a"][2]["b"]\<close>.
\<close>

theorem jsonPathToString_format:
  "jsonPathToString None = ''$''
   \<and> jsonPathToString (Some []) = ''$''
   \<and> jsonPathToString (Some p) = ''$'' @ concat (map bracketed p)
   \<and> bracketed (Key s) = ''['' @ [CHR 0x22] @ s @ [CHR 0x22] @ '']''
   \<and> bracketed (Index i) = ''['' @ int_toString i @ '']''
   \<and> jsonPathToString (Some [Key ''a'', Index 2, Key ''b''])
       = ''$['' @ [CHR 0x22] @ ''a'' @ [CHR 0x22] @ ''][2]['' @ [CHR 0x22] @ ''b'' @ [CHR 0x22] @ '']''"
proof -
  have gen: "jsonPathToString (Some p) = ''$'' @ concat (map bracketed p)"
  proof (cases p)
    case Nil
    then show ?thesis by (simp add: jsonPathToString_def)
  next
    case (Cons a as)
    then have "p \<noteq> []" by simp
    from join_bracketed [OF this]
    have "''['' @ join '']['' (map path_segment p) @ '']'' = concat (map bracketed p)" .
    with Cons show ?thesis by (simp add: jsonPathToString_def)
  qed
  have ex: "jsonPathToString (Some [Key ''a'', Index 2, Key ''b''])
       = ''$['' @ [CHR 0x22] @ ''a'' @ [CHR 0x22] @ ''][2]['' @ [CHR 0x22] @ ''b'' @ [CHR 0x22] @ '']''"
    by (simp add: jsonPathToString_def int_toString_def digits_2)
  show ?thesis
    using gen ex by (simp add: jsonPathToString_def bracketed_def)
qed

theorem jsonPathToString_format_witness:
  "jsonPathToString (Some [Key ''customer'', Index 0, Key ''name''])
     = ''$'' @ concat (map bracketed [Key ''customer'', Index 0, Key ''name''])"
  using jsonPathToString_format [of "[Key ''customer'', Index 0, Key ''name'']"] by simp

subsection \<open>The object built by normalizeNodeData\<close>

lemma map_of_insert_index:
  "k \<notin> fst ` set ps \<Longrightarrow>
     map_of (insert_index n k v ps) x = (if x = k then Some v else map_of ps x)"
  by (induction n k v ps rule: insert_index.induct) (auto split: option.splits)

lemma keys_insert_index:
  "fst ` set (insert_index n k v ps) = insert k (fst ` set ps)"
  by (induction n k v ps rule: insert_index.induct)
     (simp_all add: insert_commute split: option.splits)

lemma distinct_insert_index:
  "k \<notin> fst ` set ps \<Longrightarrow> distinct (map fst ps) \<Longrightarrow> distinct (map fst (insert_index n k v ps))"
  by (induction n k v ps rule: insert_index.induct)
     (auto simp: keys_insert_index split: option.splits)

lemma map_of_snoc:
  "k \<notin> fst ` set ps \<Longrightarrow>
     map_of (ps @ [(k, v)]) x = (if x = k then Some v else map_of ps x)"
  by (induction ps) (auto simp del: map_of_append)

lemma map_of_overwrite:
  "map_of (overwrite k v ps) x = (if x = k \<and> k \<in> fst ` set ps then Some v else map_of ps x)"
  by (induction k v ps rule: overwrite.induct) (auto simp: image_iff; force)+

lemma keys_overwrite: "map fst (overwrite k v ps) = map fst ps"
  by (induction k v ps rule: overwrite.induct) simp_all


lemma map_of_define_property:
  "map_of (define_property ps k v) x = (if x = k then Some v else map_of ps x)"
proof (cases "k \<in> fst ` set ps")
  case True
  then show ?thesis by (simp add: define_property_def map_of_overwrite)
next
  case False
  then show ?thesis
    by (cases "array_index k")
      (simp_all add: define_property_def map_of_insert_index map_of_snoc del: map_of_append)
qed

lemma distinct_define_property:
  assumes "distinct (map fst ps)"
  shows "distinct (map fst (define_property ps k v))"
proof (cases "k \<in> fst ` set ps")
  case True
  then show ?thesis using assms by (simp add: define_property_def keys_overwrite)
next
  case False
  then show ?thesis using assms
    by (cases "array_index k") (simp_all add: define_property_def distinct_insert_index)
qed


lemma add_row_props:
  assumes "proto_accessor obj" and "row_key row \<noteq> Some ''__proto__''"
  shows "proto_accessor (add_row obj row)"
    and "map_of (props (add_row obj row)) x
           = (case field_of row of None \<Rightarrow> map_of (props obj) x
              | Some (k, v) \<Rightarrow> if x = k then Some v else map_of (props obj) x)"
    and "distinct (map fst (props obj)) \<Longrightarrow> distinct (map fst (props (add_row obj row)))"
  using assms
  by (auto simp: add_row_def assign_def field_of_def map_of_define_property
      distinct_define_property split: option.splits)

lemma kept_mapping_Cons:
  "kept_mapping (r # rows) x
     = (case kept_mapping rows x of
          Some v \<Rightarrow> Some v
        | None \<Rightarrow> (case field_of r of None \<Rightarrow> None | Some (k, v) \<Rightarrow> if x = k then Some v else None))"
  by (cases "field_of r")
     (auto simp: kept_mapping_def List.map_filter_simps map_add_def split: option.splits)

lemma foldl_add_row:
  assumes "proto_accessor obj" and "\<forall>row \<in> set rows. row_key row \<noteq> Some ''__proto__''"
    and "distinct (map fst (props obj))"
  shows "map_of (props (foldl add_row obj rows)) x
           = (case kept_mapping rows x of Some v \<Rightarrow> Some v | None \<Rightarrow> map_of (props obj) x)
       \<and> distinct (map fst (props (foldl add_row obj rows)))"
  using assms
proof (induction rows arbitrary: obj)
  case Nil
  then show ?case by (simp add: kept_mapping_def List.map_filter_simps)
next
  case (Cons r rows)
  from Cons.prems have r: "row_key r \<noteq> Some ''__proto__''"
    and rest: "\<forall>row \<in> set rows. row_key row \<noteq> Some ''__proto__''" by simp_all
  note a = add_row_props(1) [OF Cons.prems(1) r]
  note m = add_row_props(2) [OF Cons.prems(1) r, of x]
  note d = add_row_props(3) [OF Cons.prems(1) r Cons.prems(3)]
  from Cons.IH [OF a rest d]
  have "map_of (props (foldl add_row (add_row obj r) rows)) x
          = (case kept_mapping rows x of Some v \<Rightarrow> Some v
             | None \<Rightarrow> map_of (props (add_row obj r)) x)"
    and dd: "distinct (map fst (props (foldl add_row (add_row obj r) rows)))"
    by simp_all
  then have "map_of (props (foldl add_row obj (r # rows))) x
      = (case kept_mapping (r # rows) x of Some v \<Rightarrow> Some v | None \<Rightarrow> map_of (props obj) x)"
    by (simp add: m kept_mapping_Cons split: option.splits)
  with dd show ?case by simp
qed


lemma JSON_stringify_one:
  "JSON_stringify rt [(k, JStr s)] 2
     = ''{'' @ [CHR 0x0A] @ ''  '' @ QuoteJSONString k @ '': '' @ QuoteJSONString s @ [CHR 0x0A] @ ''}''"
  by (simp add: JSON_stringify_def wrap_def numeral_2_eq_2)

text \<open>
  C6 (amended): normalizeNodeData gives \<open>{}\<close> for no rows (or absent rows) and the
  plain text of the value for a single row whose key is absent or empty; in every
  other case it gives the 2-space JSON text of the object built from the rows, and,
  when no row is keyed \<open>__proto__\<close>, that object has distinct keys and maps exactly the
  non-empty keys of the rows whose type is neither array nor object to their values.
\<close>

theorem normalizeNodeData_cases:
  "normalizeNodeData rt None = ''{}''
   \<and> normalizeNodeData rt (Some []) = ''{}''
   \<and> (\<not> truthy_key (row_key r) \<longrightarrow>
        normalizeNodeData rt (Some [r]) = ToString rt (row_value r))
   \<and> (rs \<noteq> [] \<or> truthy_key (row_key r) \<longrightarrow>
        normalizeNodeData rt (Some (r # rs)) = JSON_stringify rt (node_object (r # rs)) 2)
   \<and> ((\<forall>row \<in> set rows. row_key row \<noteq> Some ''__proto__'') \<longrightarrow>
        map_of (node_object rows) = kept_mapping rows
        \<and> distinct (map fst (node_object rows)))"
proof -
  have "map_of (node_object rows) = kept_mapping rows \<and> distinct (map fst (node_object rows))"
    if ok: "\<forall>row \<in> set rows. row_key row \<noteq> Some ''__proto__''"
  proof -
    have "map_of (node_object rows) x = kept_mapping rows x" for x
      using foldl_add_row [of empty_object rows x] ok
      by (simp add: node_object_def empty_object_def split: option.splits)
    moreover have "distinct (map fst (node_object rows))"
      using foldl_add_row [of empty_object rows] ok
      by (simp add: node_object_def empty_object_def)
    ultimately show ?thesis by auto
  qed
  then show ?thesis
    by (simp add: normalizeNodeData_def node_object_def)
qed

theorem normalizeNodeData_cases_witness:
  "normalizeNodeData example_runtime
      (Some [\<lparr>row_key = None, row_value = JStr ''x'', row_type = ''string''\<rparr>]) = ''x''
   \<and> normalizeNodeData example_runtime
      (Some [\<lparr>row_key = Some ''a'', row_value = JStr ''x'', row_type = ''string''\<rparr>,
             \<lparr>row_key = Some ''b'', row_value = JNull, row_type = ''object''\<rparr>])
     = ''{'' @ [CHR 0x0A] @ ''  '' @ [CHR 0x22] @ ''a'' @ [CHR 0x22] @ '': ''
        @ [CHR 0x22] @ ''x'' @ [CHR 0x22] @ [CHR 0x0A] @ ''}''
   \<and> map_of (node_object
        [\<lparr>row_key = Some ''a'', row_value = JStr ''x'', row_type = ''string''\<rparr>,
         \<lparr>row_key = Some ''b'', row_value = JNull, row_type = ''object''\<rparr>])
     = [''a'' \<mapsto> JStr ''x'']"
proof -
  let ?r = "\<lparr>row_key = None, row_value = JStr ''x'', row_type = ''string''\<rparr>"
  let ?a = "\<lparr>row_key = Some ''a'', row_value = JStr ''x'', row_type = ''string''\<rparr>"
  let ?b = "\<lparr>row_key = Some ''b'', row_value = JNull, row_type = ''object''\<rparr>"
  have o: "node_object [?a, ?b] = [(''a'', JStr ''x'')]"
    by (simp add: node_object_def add_row_def assign_def empty_object_def define_property_def
        array_index_def is_digit_def)
  have k: "kept_mapping [?a, ?b] = [''a'' \<mapsto> JStr ''x'']"
    by (simp add: kept_mapping_def field_of_def List.map_filter_simps)
  have q: "QuoteJSONString ''a'' = [CHR 0x22] @ ''a'' @ [CHR 0x22]"
     "QuoteJSONString ''x'' = [CHR 0x22] @ ''x'' @ [CHR 0x22]"
    by (simp_all add: QuoteJSONString_def escape_char_def)
  show ?thesis
    using normalizeNodeData_cases [of example_runtime ?r "[]" "[?a, ?b]"]
      normalizeNodeData_cases [of example_runtime ?a "[?b]" "[?a, ?b]"]
    by (simp add: truthy_key_def o k q JSON_stringify_one)
qed

text \<open>
  The specification's wording counts the empty string as a key; the code does not: a
  single row keyed by the empty string is printed as its plain value.
\<close>

theorem normalizeNodeData_empty_key_counterexample:
  "normalizeNodeData example_runtime
      (Some [\<lparr>row_key = Some [], row_value = JStr ''x'', row_type = ''string''\<rparr>])
     \<noteq> normalize_spec example_runtime
      [\<lparr>row_key = Some [], row_value = JStr ''x'', row_type = ''string''\<rparr>]"
  by (simp add: normalizeNodeData_def normalize_spec_def truthy_key_def spec_field_def
      List.map_filter_simps define_property_def array_index_def JSON_stringify_one)

section \<open>Properties of the value of the edited text\<close>

lemma trim_blank:
  assumes "list_all is_ws s"
  shows "trim s = []"
proof -
  from assms have "\<forall>c \<in> set s. is_ws c" by (simp add: list_all_iff)
  then have "dropWhile is_ws s = []" by (simp only: dropWhile_eq_Nil_conv)
  then have "trim s = rev (dropWhile is_ws (rev []))" by (simp only: trim_def)
  then show ?thesis by simp
qed

lemma parseEdit_fallback:
  assumes "JSON_parse rt text = Inl err"
  shows "parseEdit rt text rows =
     (case firstRow rows of
        Some row \<Rightarrow>
          if row_type row = ''string'' then Inr (JStr text)
          else if row_type row = ''number''
            then Inr (if isFinite (Number rt text) then JNum (Number rt text) else JStr text)
          else if row_type row = ''boolean'' then Inr (JBool (text = ''true''))
          else if row_type row = ''null'' then Inr JNull
          else Inr (JStr text)
      | None \<Rightarrow> Inr (JStr text))"
  unfolding parseEdit_def try_value_def Let_def using assms by simp

text \<open>
  C2: when JSON.parse rejects the text, the value follows the type of the first row:
  the text itself for string; the number Number(text) when that is finite and the text
  otherwise for number; for boolean, true exactly when the text is \<open>true\<close>; null for
  null; the text itself for any other type and for a node without rows.
\<close>

theorem parseEdit_coercion:
  assumes "JSON_parse rt text = Inl err"
  shows "(row_type row = ''string'' \<longrightarrow> parseEdit rt text (Some (row # rest)) = Inr (JStr text))
     \<and> (row_type row = ''number'' \<and> isFinite (Number rt text) \<longrightarrow>
          parseEdit rt text (Some (row # rest)) = Inr (JNum (Number rt text)))
     \<and> (row_type row = ''number'' \<and> \<not> isFinite (Number rt text) \<longrightarrow>
          parseEdit rt text (Some (row # rest)) = Inr (JStr text))
     \<and> (row_type row = ''boolean'' \<longrightarrow>
          parseEdit rt text (Some (row # rest)) = Inr (JBool (text = ''true'')))
     \<and> (row_type row = ''null'' \<longrightarrow> parseEdit rt text (Some (row # rest)) = Inr JNull)
     \<and> (row_type row \<notin> {''string'', ''number'', ''boolean'', ''null''} \<longrightarrow>
          parseEdit rt text (Some (row # rest)) = Inr (JStr text))
     \<and> parseEdit rt text (Some []) = Inr (JStr text)
     \<and> parseEdit rt text None = Inr (JStr text)"
  by (simp add: parseEdit_fallback [OF assms] firstRow_def)

theorem parseEdit_coercion_witness:
  "parseEdit example_runtime ''abc''
      (Some [\<lparr>row_key = None, row_value = JNum (Finite 1), row_type = ''number''\<rparr>])
     = Inr (JStr ''abc'')
   \<and> parseEdit example_runtime ''+42''
      (Some [\<lparr>row_key = None, row_value = JNum (Finite 1), row_type = ''number''\<rparr>])
     = Inr (JNum (Finite 42))
   \<and> parseEdit example_runtime ''yes''
      (Some [\<lparr>row_key = None, row_value = JBool True, row_type = ''boolean''\<rparr>])
     = Inr (JBool False)
   \<and> parseEdit example_runtime ''anything''
      (Some [\<lparr>row_key = None, row_value = JNull, row_type = ''null''\<rparr>])
     = Inr JNull
   \<and> parseEdit example_runtime ''hello''
      (Some [\<lparr>row_key = None, row_value = JStr ''x'', row_type = ''string''\<rparr>])
     = Inr (JStr ''hello'')"
proof -
  have f: "JSON_parse example_runtime ''abc'' = Inl SyntaxError"
    "JSON_parse example_runtime ''+42'' = Inl SyntaxError"
    "JSON_parse example_runtime ''yes'' = Inl SyntaxError"
    "JSON_parse example_runtime ''anything'' = Inl SyntaxError"
    "JSON_parse example_runtime ''hello'' = Inl SyntaxError"
    by code_simp+
  have n: "Number example_runtime ''abc'' = NaN" "Number example_runtime ''+42'' = Finite 42"
    by code_simp+
  show ?thesis
    using parseEdit_coercion [OF f(1), of "\<lparr>row_key = None, row_value = JNum (Finite 1), row_type = ''number''\<rparr>" "[]"]
      parseEdit_coercion [OF f(2), of "\<lparr>row_key = None, row_value = JNum (Finite 1), row_type = ''number''\<rparr>" "[]"]
      parseEdit_coercion [OF f(3), of "\<lparr>row_key = None, row_value = JBool True, row_type = ''boolean''\<rparr>" "[]"]
      parseEdit_coercion [OF f(4), of "\<lparr>row_key = None, row_value = JNull, row_type = ''null''\<rparr>" "[]"]
      parseEdit_coercion [OF f(5), of "\<lparr>row_key = None, row_value = JStr ''x'', row_type = ''string''\<rparr>" "[]"]
    by (simp add: n isFinite_def)
qed

text \<open>
  C3: when JSON.parse accepts the text, the value is the parsed one, whatever the rows
  of the node are; the fallback is not consulted.
\<close>

theorem parseEdit_strict_first:
  assumes "JSON_parse rt text = Inr v"
  shows "parseEdit rt text rows = Inr v"
  using assms by (simp add: parseEdit_def try_value_def)

theorem parseEdit_strict_first_witness:
  "parseEdit example_runtime ''true''
     (Some [\<lparr>row_key = None, row_value = JNum (Finite 1), row_type = ''number''\<rparr>])
     = Inr (JBool True)"
proof -
  have "JSON_parse example_runtime ''true'' = Inr (JBool True)" by code_simp
  from parseEdit_strict_first [OF this] show ?thesis .
qed

text \<open>
  C10: for the empty text and for a text of white space only, which JSON.parse
  rejects, a first row of type number gives the number 0, not the text.
\<close>

theorem parseEdit_blank_number:
  assumes "list_all is_ws text"
    and "JSON_parse rt text = Inl err"
    and "row_type row = ''number''"
  shows "parseEdit rt text (Some (row # rest)) = Inr (JNum (Finite 0))"
  using assms
  by (simp add: parseEdit_fallback firstRow_def Number_def trim_blank isFinite_def)

theorem parseEdit_blank_number_witness:
  "parseEdit example_runtime []
     (Some [\<lparr>row_key = None, row_value = JNum (Finite 1), row_type = ''number''\<rparr>])
     = Inr (JNum (Finite 0))
   \<and> parseEdit example_runtime [CHR 0x20, CHR 0x09, CHR 0x0A]
     (Some [\<lparr>row_key = None, row_value = JNum (Finite 1), row_type = ''number''\<rparr>])
     = Inr (JNum (Finite 0))"
proof -
  have f: "JSON_parse example_runtime [] = Inl SyntaxError"
    "JSON_parse example_runtime [CHR 0x20, CHR 0x09, CHR 0x0A] = Inl SyntaxError"
    by code_simp+
  have b: "list_all is_ws []" "list_all is_ws [CHR 0x20, CHR 0x09, CHR 0x0A]"
    by (simp_all add: is_ws_def)
  have t: "row_type \<lparr>row_key = None, row_value = JNum (Finite 1), row_type = ''number''\<rparr>
             = ''number''"
    by simp
  from parseEdit_blank_number [OF b(1) f(1) t, of "[]"]
    parseEdit_blank_number [OF b(2) f(2) t, of "[]"]
  show ?thesis by simp
qed

section \<open>Properties of saveEdit\<close>

lemmas prog_defs =
  return_def lift_def bind_def try_catch_def emit_def getJson_def setJson_def setContents_def
  console_error_def onClose_def setEditing_def setEditedValue_def cancelEdit_def
  applyNodeEdit_def saveEdit_def


lemma parseEdit_total: "\<exists>v. parseEdit rt text rows = Inr v"
  by (cases "JSON_parse rt text")
     (simp_all add: parseEdit_def try_value_def Let_def split: option.splits)

lemma saveEdit_modify_fails:
  assumes "node_path nd = Some path"
    and "parseEdit rt (editedValue w) (node_text nd) = Inr v"
    and "modify rt (json w) path v \<lparr>insertSpaces = True, tabSize = 2\<rparr> = Inl e"
  shows "saveEdit rt (Some nd) w
    = (Inr (), w\<lparr>editing := False, events := events w @ [GetJson, Modify, ConsoleError e, OnClose]\<rparr>)"
  using assms by (simp add: prog_defs)

lemma saveEdit_applyEdits_fails:
  assumes "node_path nd = Some path"
    and "parseEdit rt (editedValue w) (node_text nd) = Inr v"
    and "modify rt (json w) path v \<lparr>insertSpaces = True, tabSize = 2\<rparr> = Inr edits"
    and "applyEdits rt (json w) edits = Inl e"
  shows "saveEdit rt (Some nd) w
    = (Inr (), w\<lparr>editing := False,
                 events := events w @ [GetJson, Modify, ApplyEdits, ConsoleError e, OnClose]\<rparr>)"
  using assms by (simp add: prog_defs)

lemma saveEdit_success:
  assumes "node_path nd = Some path"
    and "parseEdit rt (editedValue w) (node_text nd) = Inr v"
    and "modify rt (json w) path v \<lparr>insertSpaces = True, tabSize = 2\<rparr> = Inr edits"
    and "applyEdits rt (json w) edits = Inr newJson"
  shows "saveEdit rt (Some nd) w
    = (Inr (),
       w\<lparr>json := newJson,
         file_store :=
           (case setContents_error rt \<lparr>contents = newJson, hasChanges = True, skipUpdate = True\<rparr> of
              None \<Rightarrow> Some \<lparr>contents = newJson, hasChanges = True, skipUpdate = True\<rparr>
            | Some e \<Rightarrow> file_store w),
         editing := False,
         events := events w @ [GetJson, Modify, ApplyEdits,
           SetContentsCall \<lparr>contents = newJson, hasChanges = True, skipUpdate = True\<rparr>,
           SetJson newJson, OnClose]\<rparr>)"
  using assms by (simp add: prog_defs split: option.splits)

lemma saveEdit_no_selection:
  assumes "nodeData = None \<or> (\<exists>nd. nodeData = Some nd \<and> node_path nd = None)"
  shows "saveEdit rt nodeData w = (Inr (), w\<lparr>editedValue := [], editing := False\<rparr>)"
  using assms by (auto simp: prog_defs)


text \<open>
  C1 (amended): when modify or applyEdits throws during saveEdit, the json store is not
  written (its text and the file store stay as they were), the error goes to
  console.error, and the edit surface still closes: editing becomes false and onClose
  is called.
\<close>

theorem saveEdit_patch_failure:
  assumes "node_path nd = Some path"
    and "parseEdit rt (editedValue w) (node_text nd) = Inr v"
    and "patch_result rt (json w) path v = Inl e"
  shows "saveEdit rt (Some nd) w
           = (Inr (),
              w\<lparr>editing := False,
                events := events w @ [GetJson, Modify]
                  @ (case modify rt (json w) path v \<lparr>insertSpaces = True, tabSize = 2\<rparr> of
                       Inl x \<Rightarrow> [] | Inr edits \<Rightarrow> [ApplyEdits])
                  @ [ConsoleError e, OnClose]\<rparr>)
       \<and> json (snd (saveEdit rt (Some nd) w)) = json w
       \<and> file_store (snd (saveEdit rt (Some nd) w)) = file_store w
       \<and> editing (snd (saveEdit rt (Some nd) w)) = False"
proof (cases "modify rt (json w) path v \<lparr>insertSpaces = True, tabSize = 2\<rparr>")
  case (Inl x)
  with assms(3) have "x = e" by (simp add: patch_result_def)
  with Inl show ?thesis by (simp add: saveEdit_modify_fails [OF assms(1,2)])
next
  case (Inr edits)
  with assms(3) have "applyEdits rt (json w) edits = Inl e" by (simp add: patch_result_def)
  with Inr show ?thesis by (simp add: saveEdit_applyEdits_fails [OF assms(1,2) Inr])
qed

text \<open>
  In the example modify throws because the path a, b, c runs through the number at
  a, b, which has no members.
\<close>

theorem saveEdit_patch_failure_witness:
  "saveEdit example_runtime
       (Some (example_node\<lparr>node_path := Some [Key ''a'', Key ''b'', Key ''c'']\<rparr>))
       example_world
     = (Inr (),
        example_world\<lparr>editing := False,
          events := [GetJson, Modify,
                     ConsoleError (Thrown ''Can not add index to parent of type number''),
                     OnClose]\<rparr>)"
proof -
  let ?nd = "example_node\<lparr>node_path := Some [Key ''a'', Key ''b'', Key ''c'']\<rparr>"
  have p: "node_path ?nd = Some [Key ''a'', Key ''b'', Key ''c'']" by simp
  have v: "parseEdit example_runtime (editedValue example_world) (node_text ?nd)
             = Inr (JNum (Finite 2))"
    by code_simp
  have m: "modify example_runtime (json example_world) [Key ''a'', Key ''b'', Key ''c'']
             (JNum (Finite 2)) \<lparr>insertSpaces = True, tabSize = 2\<rparr>
             = Inl (Thrown ''Can not add index to parent of type number'')"
    by code_simp
  then have r: "patch_result example_runtime (json example_world)
                  [Key ''a'', Key ''b'', Key ''c''] (JNum (Finite 2))
                  = Inl (Thrown ''Can not add index to parent of type number'')"
    by (simp add: patch_result_def)
  have ev: "events example_world = []" by (simp add: example_world_def)
  show ?thesis
    using saveEdit_patch_failure [OF p v r] by (simp add: m ev)
qed

text \<open>
  A path that is not in the document, or a document that is not well formed, does not
  make the patch fail. For the path a, c modify adds the member \<open>c\<close> to the object at
  a and formats the line it touched; for the document \<open>{"a":{"b":1}\<close>, which lacks
  its closing brace, the tolerant parser still finds a, b. In both cases the two stores
  get the new text and nothing is reported.
\<close>

theorem saveEdit_absent_path_counterexample:
  \<open>saveEdit example_runtime (Some (example_node\<lparr>node_path := Some [Key ''a'', Key ''c'']\<rparr>))
       example_world
     = (Inr (),
        example_world
          \<lparr>json := ''{'' @ [CHR 0x0A] @ ''  "a": {'' @ [CHR 0x0A] @ ''    "b": 1,'' @ [CHR 0x0A]
                     @ ''    "c": 2'' @ [CHR 0x0A] @ ''  }'' @ [CHR 0x0A] @ ''}'',
           file_store := Some
             \<lparr>contents = ''{'' @ [CHR 0x0A] @ ''  "a": {'' @ [CHR 0x0A] @ ''    "b": 1,''
                           @ [CHR 0x0A] @ ''    "c": 2'' @ [CHR 0x0A] @ ''  }'' @ [CHR 0x0A]
                           @ ''}'',
              hasChanges = True, skipUpdate = True\<rparr>,
           editing := False,
           events := [GetJson, Modify, ApplyEdits,
             SetContentsCall
               \<lparr>contents = ''{'' @ [CHR 0x0A] @ ''  "a": {'' @ [CHR 0x0A] @ ''    "b": 1,''
                             @ [CHR 0x0A] @ ''    "c": 2'' @ [CHR 0x0A] @ ''  }'' @ [CHR 0x0A]
                             @ ''}'',
                hasChanges = True, skipUpdate = True\<rparr>,
             SetJson (''{'' @ [CHR 0x0A] @ ''  "a": {'' @ [CHR 0x0A] @ ''    "b": 1,''
                      @ [CHR 0x0A] @ ''    "c": 2'' @ [CHR 0x0A] @ ''  }'' @ [CHR 0x0A] @ ''}''),
             OnClose]\<rparr>)
   \<and> saveEdit example_runtime (Some example_node) (example_world\<lparr>json := ''{"a":{"b":1}''\<rparr>)
     = (Inr (),
        example_world
          \<lparr>json := ''{"a":{"b":2}'',
           file_store := Some \<lparr>contents = ''{"a":{"b":2}'', hasChanges = True,
                                skipUpdate = True\<rparr>,
           editing := False,
           events := [GetJson, Modify, ApplyEdits,
             SetContentsCall \<lparr>contents = ''{"a":{"b":2}'', hasChanges = True,
                               skipUpdate = True\<rparr>,
             SetJson ''{"a":{"b":2}'', OnClose]\<rparr>)\<close>
  by code_simp

text \<open>
  C5: saving with no selected node, or with a node that has no path, is a cancel: the
  json store is neither read nor written and nothing is patched (no call is recorded),
  and the edit state is cleared, editing false and the draft empty.
\<close>

theorem saveEdit_no_selection_cancels:
  assumes "nodeData = None \<or> (\<exists>nd. nodeData = Some nd \<and> node_path nd = None)"
  shows "saveEdit rt nodeData w = (Inr (), w\<lparr>editedValue := [], editing := False\<rparr>)
       \<and> events (snd (saveEdit rt nodeData w)) = events w
       \<and> json (snd (saveEdit rt nodeData w)) = json w
       \<and> file_store (snd (saveEdit rt nodeData w)) = file_store w"
  using saveEdit_no_selection [OF assms] by simp

theorem saveEdit_no_selection_cancels_witness:
  "saveEdit example_runtime None example_world
     = (Inr (), example_world\<lparr>editedValue := [], editing := False\<rparr>)
   \<and> saveEdit example_runtime (Some (example_node\<lparr>node_path := None\<rparr>)) example_world
     = (Inr (), example_world\<lparr>editedValue := [], editing := False\<rparr>)"
  using saveEdit_no_selection_cancels [of None example_runtime example_world]
    saveEdit_no_selection_cancels
      [of "Some (example_node\<lparr>node_path := None\<rparr>)" example_runtime example_world]
  by simp

text \<open>
  C9: when modify and applyEdits succeed, setContents is called with the new text,
  hasChanges true and skipUpdate true, and then setJson with the same text; the json
  store holds the new text also when setContents throws, the throw being swallowed.
\<close>

theorem saveEdit_updates_both_stores:
  assumes "node_path nd = Some path"
    and "parseEdit rt (editedValue w) (node_text nd) = Inr v"
    and "modify rt (json w) path v \<lparr>insertSpaces = True, tabSize = 2\<rparr> = Inr edits"
    and "applyEdits rt (json w) edits = Inr newJson"
  shows "saveEdit rt (Some nd) w
    = (Inr (),
       w\<lparr>json := newJson,
         file_store :=
           (case setContents_error rt \<lparr>contents = newJson, hasChanges = True, skipUpdate = True\<rparr> of
              None \<Rightarrow> Some \<lparr>contents = newJson, hasChanges = True, skipUpdate = True\<rparr>
            | Some e \<Rightarrow> file_store w),
         editing := False,
         events := events w @ [GetJson, Modify, ApplyEdits,
           SetContentsCall \<lparr>contents = newJson, hasChanges = True, skipUpdate = True\<rparr>,
           SetJson newJson, OnClose]\<rparr>)"
  using saveEdit_success [OF assms] .

theorem saveEdit_updates_both_stores_witness:
  \<open>json (snd (saveEdit example_runtime (Some example_node) example_world)) = ''{"a":{"b":2}}''
   \<and> file_store (snd (saveEdit example_runtime (Some example_node) example_world))
       = Some \<lparr>contents = ''{"a":{"b":2}}'', hasChanges = True, skipUpdate = True\<rparr>
   \<and> json (snd (saveEdit (example_runtime\<lparr>setContents_error := \<lambda>arg. Some (Thrown ''editor'')\<rparr>)
                  (Some example_node) example_world)) = ''{"a":{"b":2}}''
   \<and> file_store (snd (saveEdit (example_runtime\<lparr>setContents_error := \<lambda>arg. Some (Thrown ''editor'')\<rparr>)
                  (Some example_node) example_world)) = None\<close>
proof -
  let ?rt = "example_runtime\<lparr>setContents_error := \<lambda>arg. Some (Thrown ''editor'')\<rparr>"
  let ?e = "[\<lparr>offset = 10, edit_length = 1, content = ''2''\<rparr>]"
  have p: "node_path example_node = Some [Key ''a'', Key ''b'']"
    by (simp add: example_node_def)
  have v: "parseEdit example_runtime (editedValue example_world) (node_text example_node)
             = Inr (JNum (Finite 2))"
     "parseEdit ?rt (editedValue example_world) (node_text example_node) = Inr (JNum (Finite 2))"
    by code_simp+
  have m: "modify example_runtime (json example_world) [Key ''a'', Key ''b''] (JNum (Finite 2))
             \<lparr>insertSpaces = True, tabSize = 2\<rparr> = Inr ?e"
     "modify ?rt (json example_world) [Key ''a'', Key ''b''] (JNum (Finite 2))
             \<lparr>insertSpaces = True, tabSize = 2\<rparr> = Inr ?e"
    by code_simp+
  have a: \<open>applyEdits example_runtime (json example_world) ?e = Inr ''{"a":{"b":2}}''\<close>
     \<open>applyEdits ?rt (json example_world) ?e = Inr ''{"a":{"b":2}}''\<close>
    by code_simp+
  have s: "setContents_error example_runtime
             \<lparr>contents = c, hasChanges = True, skipUpdate = True\<rparr> = None"
      "setContents_error ?rt \<lparr>contents = c, hasChanges = True, skipUpdate = True\<rparr>
         = Some (Thrown ''editor'')" for c
    by (simp_all add: example_runtime_def example_language_def)
  show ?thesis
    using saveEdit_updates_both_stores [OF p v(1) m(1) a(1)]
      saveEdit_updates_both_stores [OF p v(2) m(2) a(2)]
    by (simp add: s example_world_def)
qed

text \<open>
  C4: saveEdit completes normally for every runtime, selection and state: what
  JSON.parse throws and what modify, applyEdits and setContents throw is caught inside,
  and the value of the edited text is always defined.
\<close>

theorem saveEdit_never_throws:
  "fst (saveEdit rt nodeData w) = Inr () \<and> (\<exists>v. parseEdit rt text rows = Inr v)"
proof -
  have "fst (saveEdit rt nodeData w) = Inr ()"
  proof (cases nodeData)
    case None
    then show ?thesis by (simp add: saveEdit_no_selection)
  next
    case (Some nd)
    show ?thesis
    proof (cases "node_path nd")
      case None
      with Some show ?thesis by (simp add: saveEdit_no_selection)
    next
      case (Some path)
      obtain v where v: "parseEdit rt (editedValue w) (node_text nd) = Inr v"
        using parseEdit_total by blast
      show ?thesis
      proof (cases "modify rt (json w) path v \<lparr>insertSpaces = True, tabSize = 2\<rparr>")
        case (Inl e)
        with \<open>nodeData = Some nd\<close> show ?thesis
          by (simp add: saveEdit_modify_fails [OF Some v])
      next
        case (Inr edits)
        with \<open>nodeData = Some nd\<close> show ?thesis
          by (cases "applyEdits rt (json w) edits")
            (simp_all add: saveEdit_applyEdits_fails [OF Some v Inr] saveEdit_success [OF Some v Inr])
      qed
    qed
  qed
  with parseEdit_total show ?thesis by blast
qed

theorem saveEdit_never_throws_witness:
  "fst (saveEdit example_runtime (Some example_node) (example_world\<lparr>editedValue := ''{''\<rparr>))
     = Inr ()"
  using saveEdit_never_throws
    [of example_runtime "Some example_node" "example_world\<lparr>editedValue := ''{''\<rparr>"]
  by simp

section \<open>The edit session\<close>

lemma cancelEdit_state: "cancelEdit w = (Inr (), w\<lparr>editedValue := [], editing := False\<rparr>)"
  by (simp add: prog_defs)

lemma reset_effect_state:
  "deps \<noteq> previous \<Longrightarrow>
     reset_effect previous deps w = (Inr (), w\<lparr>editing := False, editedValue := []\<rparr>)"
  by (simp add: reset_effect_def prog_defs)

lemma startEdit_state:
  "startEdit rt nodeData w
     = (Inr (), w\<lparr>editedValue := initialContent rt nodeData, editing := True\<rparr>)"
  by (simp add: startEdit_def prog_defs)

lemma saveEdit_keeps_draft:
  assumes "node_path nd = Some path"
  shows "editedValue (snd (saveEdit rt (Some nd) w)) = editedValue w
       \<and> editing (snd (saveEdit rt (Some nd) w)) = False"
proof -
  obtain v where v: "parseEdit rt (editedValue w) (node_text nd) = Inr v"
    using parseEdit_total by blast
  show ?thesis
  proof (cases "modify rt (json w) path v \<lparr>insertSpaces = True, tabSize = 2\<rparr>")
    case (Inl e)
    then show ?thesis by (simp add: saveEdit_modify_fails [OF assms v])
  next
    case (Inr edits)
    then show ?thesis
      by (cases "applyEdits rt (json w) edits")
        (simp_all add: saveEdit_applyEdits_fails [OF assms v Inr] saveEdit_success [OF assms v Inr])
  qed
qed

text \<open>
  C8 (amended): the effect resets the session to editing false and an empty draft when
  the selected node's id or the opened flag changes; cancel resets both; save always
  sets editing to false, and it empties the draft when nothing is selected, while a
  save on a selected node leaves the draft text in place; startEdit replaces whatever
  draft there is by the content of the selected node, so that no draft of one node
  is carried into the edit session of another.
\<close>

theorem edit_session_lifecycle:
  "(deps \<noteq> previous \<longrightarrow>
      editing (snd (reset_effect previous deps w)) = False
      \<and> editedValue (snd (reset_effect previous deps w)) = [])
   \<and> editing (snd (cancelEdit w)) = False
   \<and> editedValue (snd (cancelEdit w)) = []
   \<and> editing (snd (saveEdit rt nodeData w)) = False
   \<and> (nodeData = None \<or> (\<exists>nd. nodeData = Some nd \<and> node_path nd = None) \<longrightarrow>
        editedValue (snd (saveEdit rt nodeData w)) = [])
   \<and> ((\<exists>nd path. nodeData = Some nd \<and> node_path nd = Some path) \<longrightarrow>
        editedValue (snd (saveEdit rt nodeData w)) = editedValue w)
   \<and> editing (snd (startEdit rt nodeData w)) = True
   \<and> editedValue (snd (startEdit rt nodeData w)) = initialContent rt nodeData"
proof -
  have "editing (snd (saveEdit rt nodeData w)) = False"
  proof (cases "nodeData = None \<or> (\<exists>nd. nodeData = Some nd \<and> node_path nd = None)")
    case True
    then show ?thesis by (simp add: saveEdit_no_selection)
  next
    case False
    then obtain nd path where "nodeData = Some nd" "node_path nd = Some path" by auto
    then show ?thesis using saveEdit_keeps_draft by simp
  qed
  moreover have "editedValue (snd (saveEdit rt nodeData w)) = []"
    if "nodeData = None \<or> (\<exists>nd. nodeData = Some nd \<and> node_path nd = None)"
    using that by (simp add: saveEdit_no_selection)
  moreover have "editedValue (snd (saveEdit rt nodeData w)) = editedValue w"
    if "\<exists>nd path. nodeData = Some nd \<and> node_path nd = Some path"
    using that saveEdit_keeps_draft by auto
  ultimately show ?thesis
    by (simp add: cancelEdit_state reset_effect_state startEdit_state)
qed

theorem edit_session_lifecycle_witness:
  "editedValue (snd (reset_effect (Some ''1'', True) (Some ''2'', True) example_world)) = []
   \<and> editedValue (snd (saveEdit example_runtime None example_world)) = []
   \<and> editedValue (snd (saveEdit example_runtime (Some example_node) example_world)) = ''2''
   \<and> editedValue (snd (startEdit example_runtime (Some example_node) example_world)) = ''1''"
proof -
  have i: "initialContent example_runtime (Some example_node) = ''1''" by code_simp
  have p: "\<exists>nd path. Some example_node = Some nd \<and> node_path nd = Some path"
    by (simp add: example_node_def)
  have w: "editedValue example_world = ''2''" by (simp add: example_world_def)
  from edit_session_lifecycle
     [of "(Some ''2'', True)" "(Some ''1'', True)" example_world example_runtime None]
  have "editedValue (snd (reset_effect (Some ''1'', True) (Some ''2'', True) example_world)) = []
      \<and> editedValue (snd (saveEdit example_runtime None example_world)) = []"
    by simp
  moreover
  from edit_session_lifecycle
     [of "(Some ''2'', True)" "(Some ''1'', True)" example_world example_runtime
         "Some example_node"] p
  have "editedValue (snd (saveEdit example_runtime (Some example_node) example_world))
          = editedValue example_world
      \<and> editedValue (snd (startEdit example_runtime (Some example_node) example_world))
          = initialContent example_runtime (Some example_node)"
    by blast
  ultimately show ?thesis by (simp only: i w simp_thms)
qed

text \<open>After a save on a selected node the draft is still there.\<close>

theorem saveEdit_keeps_draft_counterexample:
  "editedValue (snd (saveEdit example_runtime (Some example_node) example_world)) \<noteq> []"
  using saveEdit_keeps_draft [of example_node "[Key ''a'', Key ''b'']" example_runtime example_world]
  by (simp add: example_node_def example_world_def)


end
